theory Spec2Isabelle
  imports Complex_Main
begin

section \<open>Label noise injection of data/utils.py\<close>

text \<open>
  The development embeds the noise core of \<^verbatim>\<open>data/utils.py\<close>: the sampler
  \<^verbatim>\<open>multiclass_noisify\<close>, the two topology functions \<^verbatim>\<open>noisify_pairflip\<close> and
  \<^verbatim>\<open>noisify_multiclass_symmetric\<close>, and the dispatcher \<^verbatim>\<open>noisify\<close>.

  Conventions of the embedding.
  \<^item> numpy's float64 entries are read as exact reals: \<^verbatim>\<open>1. - n\<close> is \<open>1 - n\<close> and
    \<^verbatim>\<open>n / (nb_classes - 1)\<close> is the exact quotient. Rounding is modelled only where a
    statement depends on it: for the entries of the symmetric matrix, which are given a
    second time with float64 rounding (\<open>symmetric_matrix_f64\<close>).
  \<^item> A Python exception is a value of \<open>error\<close>; a computation returns \<open>error + 'a\<close>.
  \<^item> A two-dimensional array is the list of its rows.
  \<^item> What a call does besides returning (allocating the matrix, entering the
    sampler, creating and using the generator, printing) is recorded as a list of events
    returned with the result.
\<close>

subsection \<open>Exceptions and sequencing\<close>

datatype error = AssertionError | IndexError | ValueError | TypeError | ZeroDivisionError

definition bindE :: "error + 'a \<Rightarrow> ('a \<Rightarrow> error + 'b) \<Rightarrow> error + 'b" where
  "bindE m f = (case m of Inl e \<Rightarrow> Inl e | Inr x \<Rightarrow> f x)"

text \<open>A \<^verbatim>\<open>for\<close> loop over a list of indices, stopping at the first exception.\<close>

fun forE :: "'i list \<Rightarrow> ('i \<Rightarrow> 's \<Rightarrow> error + 's) \<Rightarrow> 's \<Rightarrow> error + 's" where
  "forE [] body s = Inr s"
| "forE (i # is) body s = bindE (body i s) (forE is body)"

text \<open>\<^verbatim>\<open>range(a, b)\<close>: the integers from \<open>a\<close> up to \<open>b - 1\<close>, empty when \<open>b \<le> a\<close>.\<close>

definition py_range :: "int \<Rightarrow> int \<Rightarrow> int list" where
  "py_range a b = [a..b - 1]"

text \<open>\<^verbatim>\<open>assert b\<close>.\<close>

definition py_assert :: "bool \<Rightarrow> error + unit" where
  "py_assert b = (if b then Inr () else Inl AssertionError)"

text \<open>True division \<^verbatim>\<open>a / b\<close> of a Python float by a Python int.\<close>

definition py_truediv :: "real \<Rightarrow> int \<Rightarrow> error + real" where
  "py_truediv a b = (if b = 0 then Inl ZeroDivisionError else Inr (a / real_of_int b))"

subsection \<open>Matrices\<close>

type_synonym matrix = "real list list"

definition shape0 :: "matrix \<Rightarrow> nat" where
  "shape0 M = length M"

definition shape1 :: "matrix \<Rightarrow> nat" where
  "shape1 M = (case M of [] \<Rightarrow> 0 | r # _ \<Rightarrow> length r)"

text \<open>\<^verbatim>\<open>np.eye(N)\<close> and \<^verbatim>\<open>np.ones((r, c))\<close>; a negative dimension raises ValueError.\<close>

definition np_eye :: "int \<Rightarrow> error + matrix" where
  "np_eye N = (if N < 0 then Inl ValueError
     else Inr (map (\<lambda>i. map (\<lambda>j. if i = j then 1 else 0) [0..<nat N]) [0..<nat N]))"

definition np_ones :: "int \<times> int \<Rightarrow> error + matrix" where
  "np_ones shp = (if fst shp < 0 \<or> snd shp < 0 then Inl ValueError
     else Inr (replicate (nat (fst shp)) (replicate (nat (snd shp)) 1)))"

text \<open>\<^verbatim>\<open>c * matrix\<close> for a scalar \<open>c\<close>.\<close>

definition scalar_mul :: "real \<Rightarrow> matrix \<Rightarrow> matrix" where
  "scalar_mul c M = map (map (\<lambda>x. c * x)) M"

text \<open>
  An index into an axis of length \<open>len\<close>: numpy counts a negative index from the end
  and raises IndexError outside \<open>[-len, len)\<close>.
\<close>

definition np_index :: "nat \<Rightarrow> int \<Rightarrow> error + nat" where
  "np_index len i =
     (if 0 \<le> i \<and> i < int len then Inr (nat i)
      else if i < 0 \<and> - int len \<le> i then Inr (nat (i + int len))
      else Inl IndexError)"

text \<open>\<^verbatim>\<open>matrix[i, j] = v\<close>.\<close>

definition setitem :: "matrix \<Rightarrow> int \<times> int \<Rightarrow> real \<Rightarrow> error + matrix" where
  "setitem M ij v =
     bindE (np_index (shape0 M) (fst ij)) (\<lambda>r.
     bindE (np_index (shape1 M) (snd ij)) (\<lambda>c.
       Inr (M[r := (M ! r)[c := v]])))"

subsection \<open>The two transition matrices\<close>

text \<open>
  The source builds the matrix inline, at the head of each topology function. The
  statements that build it are collected here under a name of their own, so that the
  matrix can be spoken about; the topology functions below call these.

  Lines 128 to 136 of \<^verbatim>\<open>noisify_pairflip\<close>: the identity, overwritten row by row
  only when \<^verbatim>\<open>n > 0.0\<close>. A tuple assignment \<^verbatim>\<open>a, b = x, y\<close> stores \<open>a\<close> first.
\<close>

definition pairflip_matrix :: "int \<Rightarrow> real \<Rightarrow> error + matrix" where
  "pairflip_matrix nb_classes n =
     bindE (np_eye nb_classes) (\<lambda>matrix.
       if n > 0 then
         bindE (setitem matrix (0, 0) (1 - n)) (\<lambda>matrix.
         bindE (setitem matrix (0, 1) n) (\<lambda>matrix.
         bindE (forE (py_range 1 (nb_classes - 1))
                  (\<lambda>i matrix. bindE (setitem matrix (i, i) (1 - n)) (\<lambda>matrix.
                                 setitem matrix (i, i + 1) n)) matrix) (\<lambda>matrix.
         bindE (setitem matrix (nb_classes - 1, nb_classes - 1) (1 - n)) (\<lambda>matrix.
         setitem matrix (nb_classes - 1, 0) n))))
       else Inr matrix)"

text \<open>
  Lines 153 to 162 of \<^verbatim>\<open>noisify_multiclass_symmetric\<close>: every entry is set to
  \<^verbatim>\<open>n / (nb_classes - 1)\<close> first; the diagonal is overwritten only when \<^verbatim>\<open>n > 0.0\<close>.
\<close>

definition symmetric_matrix :: "int \<Rightarrow> real \<Rightarrow> error + matrix" where
  "symmetric_matrix nb_classes n =
     bindE (np_ones (nb_classes, nb_classes)) (\<lambda>matrix.
     bindE (py_truediv n (nb_classes - 1)) (\<lambda>c.
     let matrix = scalar_mul c matrix in
       if n > 0 then
         bindE (setitem matrix (0, 0) (1 - n)) (\<lambda>matrix.
         bindE (forE (py_range 1 (nb_classes - 1))
                  (\<lambda>i matrix. setitem matrix (i, i) (1 - n)) matrix) (\<lambda>matrix.
         setitem matrix (nb_classes - 1, nb_classes - 1) (1 - n)))
       else Inr matrix))"

subsection \<open>Label arrays\<close>

text \<open>
  A label array is either flat, of shape \<open>(m,)\<close>, or a column, of shape \<open>(m, 1)\<close>.
  Indexing the first with \<^verbatim>\<open>y[idx]\<close> gives an integer, indexing the second gives an
  array of shape \<open>(1,)\<close>.
\<close>

datatype labels = Flat "int list" | Column "int list"

fun label_values :: "labels \<Rightarrow> int list" where
  "label_values (Flat ys) = ys"
| "label_values (Column ys) = ys"

text \<open>An array of the shape of \<open>y\<close> with other entries (\<^verbatim>\<open>y.copy()\<close> after its updates).\<close>

fun with_values :: "labels \<Rightarrow> int list \<Rightarrow> labels" where
  "with_values (Flat _) zs = Flat zs"
| "with_values (Column _) zs = Column zs"

datatype item = Scalar_index int | Array_index int

fun getitem_label :: "labels \<Rightarrow> nat \<Rightarrow> item" where
  "getitem_label (Flat ys) idx = Scalar_index (ys ! idx)"
| "getitem_label (Column ys) idx = Array_index (ys ! idx)"

text \<open>\<^verbatim>\<open>np.max(y)\<close>: ValueError on an array without elements.\<close>

definition np_max :: "int list \<Rightarrow> error + int" where
  "np_max ys = (case ys of [] \<Rightarrow> Inl ValueError | y # ys' \<Rightarrow> Inr (fold max ys' y))"

text \<open>
  \<^verbatim>\<open>matrix[i, :][0]\<close>. For an integer \<open>i\<close>, \<^verbatim>\<open>matrix[i, :]\<close> is row \<open>i\<close> and
  \<^verbatim>\<open>[0]\<close> its first entry, a scalar. For an array \<open>i\<close> of shape \<open>(1,)\<close>,
  \<^verbatim>\<open>matrix[i, :]\<close> has shape \<open>(1, cols)\<close> and \<^verbatim>\<open>[0]\<close> is the whole row.
\<close>

datatype pvals = Pscalar real | Pvector "real list"

definition row_then_first :: "matrix \<Rightarrow> item \<Rightarrow> error + pvals" where
  "row_then_first M i =
     (case i of
        Scalar_index v \<Rightarrow>
          bindE (np_index (shape0 M) v) (\<lambda>r.
            case M ! r of [] \<Rightarrow> Inl IndexError | x # _ \<Rightarrow> Inr (Pscalar x))
      | Array_index v \<Rightarrow>
          bindE (np_index (shape0 M) v) (\<lambda>r. Inr (Pvector (M ! r))))"

text \<open>\<^verbatim>\<open>np.where(flipped == 1)[0]\<close>: the positions that hold 1.\<close>

definition np_where_eq1 :: "nat list \<Rightarrow> nat list" where
  "np_where_eq1 flipped = filter (\<lambda>j. flipped ! j = 1) [0..<length flipped]"

text \<open>
  \<^verbatim>\<open>new_y[idx] = w\<close> for an index array \<open>w\<close>: the slot holds one value, and numpy
  raises ValueError when \<open>w\<close> does not have exactly one element.
\<close>

definition setitem_label :: "int list \<Rightarrow> nat \<Rightarrow> nat list \<Rightarrow> error + int list" where
  "setitem_label new_y idx w =
     (case w of [j] \<Rightarrow> Inr (new_y[idx := int j]) | _ \<Rightarrow> Inl ValueError)"

text \<open>
  \<^verbatim>\<open>np.not_equal(a, b).mean()\<close> for two arrays of one shape. The quotient has a
  zero denominator only for arrays without elements, which the sampler never returns
  (lemma \<open>multiclass_noisify_nonempty\<close> below).
\<close>

definition mean_not_equal :: "labels \<Rightarrow> labels \<Rightarrow> real" where
  "mean_not_equal a b =
     real (length (filter (\<lambda>(x, y). x \<noteq> y) (zip (label_values a) (label_values b))))
       / real (length (label_values a))"

subsection \<open>The random generator\<close>

text \<open>
  numpy's generator is a library outside the repository, so it is a parameter of the
  model: a type \<open>'g\<close> of generator states with
  \<^item> \<open>seed_state s\<close>, the state \<^verbatim>\<open>RandomState(s)\<close> starts in for an integer \<open>s\<close>, or
    \<open>None\<close> where numpy raises ValueError (a seed outside \<open>[0, 2^32)\<close>);
  \<^item> \<open>entropy_state e\<close>, the state \<^verbatim>\<open>RandomState(None)\<close> starts in when the operating
    system supplies the entropy \<open>e\<close>;
  \<^item> \<open>multinomial_one g p\<close>, the count vector \<^verbatim>\<open>multinomial(1, p, 1)[0]\<close> drawn in
    state \<open>g\<close> with the state after the draw, or \<open>None\<close> where numpy raises ValueError
    (an invalid \<open>p\<close>).
\<close>

record ('g, 'e) numpy_random =
  seed_state :: "int \<Rightarrow> 'g option"
  entropy_state :: "'e \<Rightarrow> 'g"
  multinomial_one :: "'g \<Rightarrow> real list \<Rightarrow> (nat list \<times> 'g) option"

text \<open>\<^verbatim>\<open>np.random.RandomState(random_state)\<close>.\<close>

definition RandomState :: "('g, 'e) numpy_random \<Rightarrow> 'e \<Rightarrow> int option \<Rightarrow> error + 'g" where
  "RandomState np ent random_state =
     (case random_state of
        None \<Rightarrow> Inr (entropy_state np ent)
      | Some s \<Rightarrow> (case seed_state np s of None \<Rightarrow> Inl ValueError | Some g \<Rightarrow> Inr g))"

text \<open>
  \<^verbatim>\<open>flipper.multinomial(1, p, 1)[0]\<close>. numpy takes \<^verbatim>\<open>len(p)\<close> first, which raises
  TypeError on a scalar.
\<close>

definition np_multinomial ::
  "('g, 'e) numpy_random \<Rightarrow> 'g \<Rightarrow> pvals \<Rightarrow> error + (nat list \<times> 'g)" where
  "np_multinomial np g p =
     (case p of
        Pscalar _ \<Rightarrow> Inl TypeError
      | Pvector ps \<Rightarrow> (case multinomial_one np g ps of None \<Rightarrow> Inl ValueError | Some r \<Rightarrow> Inr r))"

text \<open>
  Modelled from the spec: numpy's generator, which is not part of the repository. The
  spec's design notes describe the draw as: take the cumulative sum of the row, draw a
  uniform real in \<open>[0,1)\<close> from the local generator, choose the first index whose
  cumulative probability exceeds the draw. \<open>spec_rng\<close> is one such generator, used to run
  the model on concrete inputs: its state is a counter \<open>g\<close> and its uniform draw in
  state \<open>g\<close> is \<open>(g mod 4) / 4\<close>.
\<close>

fun first_exceeding :: "real \<Rightarrow> real list \<Rightarrow> nat" where
  "first_exceeding u [] = 0"
| "first_exceeding u (p # ps) = (if u < p \<or> ps = [] then 0 else Suc (first_exceeding (u - p) ps))"

definition one_hot :: "nat \<Rightarrow> nat \<Rightarrow> nat list" where
  "one_hot d k = map (\<lambda>j. if j = k then 1 else 0) [0..<d]"

definition spec_rng :: "(nat, nat) numpy_random" where
  "spec_rng =
     \<lparr> seed_state = (\<lambda>s. if 0 \<le> s \<and> s < 2 ^ 32 then Some (nat s) else None),
       entropy_state = (\<lambda>e. e),
       multinomial_one = (\<lambda>g p. if p = [] then None
          else Some (one_hot (length p) (first_exceeding (real (g mod 4) / 4) p), Suc g)) \<rparr>"

subsection \<open>Computations with a trace\<close>

text \<open>
  The events, in the order the source can produce them:
  \<^item> \<open>Build_matrix\<close>: a topology function starts on its matrix (\<^verbatim>\<open>np.eye\<close> or
    \<^verbatim>\<open>np.ones\<close> is called);
  \<^item> \<open>Sampler_entered\<close>: \<^verbatim>\<open>multiclass_noisify\<close> is called;
  \<^item> \<open>Rng_created\<close>: \<^verbatim>\<open>np.random.RandomState\<close> has returned a generator;
  \<^item> \<open>Rng_draw\<close>: \<^verbatim>\<open>flipper.multinomial\<close> is called;
  \<^item> \<open>Printed r\<close>: the line \<^verbatim>\<open>Actual noise\<close> is printed for the rate \<open>r\<close>.
\<close>

datatype event = Build_matrix | Sampler_entered | Rng_created | Rng_draw | Printed real

type_synonym 'a comp = "event list \<times> (error + 'a)"

definition returnT :: "'a \<Rightarrow> 'a comp" where
  "returnT x = ([], Inr x)"

definition raiseT :: "error \<Rightarrow> 'a comp" where
  "raiseT e = ([], Inl e)"

definition liftT :: "error + 'a \<Rightarrow> 'a comp" where
  "liftT r = ([], r)"

definition emit :: "event \<Rightarrow> unit comp" where
  "emit ev = ([ev], Inr ())"

definition bindT :: "'a comp \<Rightarrow> ('a \<Rightarrow> 'b comp) \<Rightarrow> 'b comp" where
  "bindT m f =
     (case m of
        (t, Inl e) \<Rightarrow> (t, Inl e)
      | (t, Inr x) \<Rightarrow> (case f x of (t', r) \<Rightarrow> (t @ t', r)))"

fun forT :: "'i list \<Rightarrow> ('i \<Rightarrow> 's \<Rightarrow> 's comp) \<Rightarrow> 's \<Rightarrow> 's comp" where
  "forT [] body s = returnT s"
| "forT (i # is) body s = bindT (body i s) (forT is body)"

subsection \<open>The sampler\<close>

text \<open>
  The comparison \<^verbatim>\<open>assert_array_almost_equal\<close> makes on each pair of entries, with its
  default of six decimals: \<^verbatim>\<open>abs(desired - actual) < 1.5 * 10**(-6)\<close>.
\<close>

definition almost_equal :: "real \<Rightarrow> real \<Rightarrow> bool" where
  "almost_equal actual desired = (\<bar>desired - actual\<bar> < 1.5 / 10 ^ 6)"

text \<open>One round of the loop of lines 115 to 119, on the pair of \<open>new_y\<close> and the generator.\<close>

definition flip_one ::
  "('g, 'e) numpy_random \<Rightarrow> labels \<Rightarrow> matrix \<Rightarrow> nat \<Rightarrow> int list \<times> 'g \<Rightarrow> (int list \<times> 'g) comp" where
  "flip_one np y matrix idx s =
     (let i = getitem_label y idx in
      bindT (liftT (row_then_first matrix i)) (\<lambda>p.
      bindT (emit Rng_draw) (\<lambda>_.
      bindT (liftT (np_multinomial np (snd s) p)) (\<lambda>drawn.
      bindT (liftT (setitem_label (fst s) idx (np_where_eq1 (fst drawn)))) (\<lambda>new_y.
      returnT (new_y, snd drawn))))))"

text \<open>
  Lines 104 to 120: the four assertions in the order of the source, the copy of the
  labels, the generator, the loop over the positions, and the copy as result. The input
  array \<open>y\<close> is only read.
\<close>

definition multiclass_noisify ::
  "('g, 'e) numpy_random \<Rightarrow> 'e \<Rightarrow> labels \<Rightarrow> matrix \<Rightarrow> int option \<Rightarrow> labels comp" where
  "multiclass_noisify np ent y matrix random_state =
     bindT (emit Sampler_entered) (\<lambda>_.
     bindT (liftT (py_assert (shape0 matrix = shape1 matrix))) (\<lambda>_.
     bindT (liftT (np_max (label_values y))) (\<lambda>mx.
     bindT (liftT (py_assert (mx < int (shape0 matrix)))) (\<lambda>_.
     bindT (liftT (py_assert (list_all2 almost_equal (map sum_list matrix)
                                (replicate (shape1 matrix) 1)))) (\<lambda>_.
     bindT (liftT (py_assert (list_all (list_all (\<lambda>x. 0 \<le> x)) matrix))) (\<lambda>_.
     let m = length (label_values y); new_y = label_values y in
     bindT (liftT (RandomState np ent random_state)) (\<lambda>flipper.
     bindT (emit Rng_created) (\<lambda>_.
     bindT (forT [0..<m] (flip_one np y matrix) (new_y, flipper)) (\<lambda>s.
     returnT (with_values y (fst s)))))))))))"

subsection \<open>The topology functions and the dispatcher\<close>

text \<open>
  Lines 124 to 146 and 149 to 172. The guard \<^verbatim>\<open>n > 0.0\<close> of the source encloses both
  the overwriting of the matrix (tested in the two matrix functions above) and the call
  of the sampler with what follows it (tested here); both tests are on the same value.
  With the guard false the function returns \<open>y_train\<close> itself and \<open>None\<close>.
\<close>

definition noisify_pairflip ::
  "('g, 'e) numpy_random \<Rightarrow> 'e \<Rightarrow> labels \<Rightarrow> real \<Rightarrow> int option \<Rightarrow> int
     \<Rightarrow> (labels \<times> real option) comp" where
  "noisify_pairflip np ent y_train noise random_state nb_classes =
     bindT (emit Build_matrix) (\<lambda>_.
     bindT (liftT (pairflip_matrix nb_classes noise)) (\<lambda>matrix.
       if noise > 0 then
         bindT (multiclass_noisify np ent y_train matrix random_state) (\<lambda>y_train_noisy.
         let actual_noise = mean_not_equal y_train_noisy y_train in
         bindT (liftT (py_assert (actual_noise > 0))) (\<lambda>_.
         bindT (emit (Printed actual_noise)) (\<lambda>_.
         returnT (y_train_noisy, Some actual_noise))))
       else returnT (y_train, None)))"

definition noisify_multiclass_symmetric ::
  "('g, 'e) numpy_random \<Rightarrow> 'e \<Rightarrow> labels \<Rightarrow> real \<Rightarrow> int option \<Rightarrow> int
     \<Rightarrow> (labels \<times> real option) comp" where
  "noisify_multiclass_symmetric np ent y_train noise random_state nb_classes =
     bindT (emit Build_matrix) (\<lambda>_.
     bindT (liftT (symmetric_matrix nb_classes noise)) (\<lambda>matrix.
       if noise > 0 then
         bindT (multiclass_noisify np ent y_train matrix random_state) (\<lambda>y_train_noisy.
         let actual_noise = mean_not_equal y_train_noisy y_train in
         bindT (liftT (py_assert (actual_noise > 0))) (\<lambda>_.
         bindT (emit (Printed actual_noise)) (\<lambda>_.
         returnT (y_train_noisy, Some actual_noise))))
       else returnT (y_train, None)))"

text \<open>
  \<^verbatim>\<open>noise_type\<close> is any Python value; only its comparison with the two strings
  matters, so it is a string or \<open>None\<close> (the default).
\<close>

definition noisify ::
  "('g, 'e) numpy_random \<Rightarrow> 'e \<Rightarrow> int \<Rightarrow> labels \<Rightarrow> string option \<Rightarrow> real \<Rightarrow> int option
     \<Rightarrow> (labels \<times> real option) comp" where
  "noisify np ent nb_classes train_labels noise_type noise_rate random_state =
     (if noise_type = Some ''pairflip'' then
        noisify_pairflip np ent train_labels noise_rate random_state nb_classes
      else if noise_type = Some ''symmetric'' then
        noisify_multiclass_symmetric np ent train_labels noise_rate random_state nb_classes
      else raiseT ValueError)"

subsection \<open>The symmetric matrix in float64\<close>

text \<open>
  The statements above read the entries as exact reals. The two operations that decide the
  entries of the symmetric matrix, \<^verbatim>\<open>n / (nb_classes - 1)\<close> and \<^verbatim>\<open>1. - n\<close>, are float64
  operations in the source: each returns the exact result rounded to the nearest float64,
  ties to the even mantissa (IEEE 754 binary64). This section gives that rounding and the
  same lines 153 to 162 with it.

  \<open>pow2 e\<close> is \<open>2\<close> to the integer power \<open>e\<close>.
\<close>

definition pow2 :: "int \<Rightarrow> real" where
  "pow2 e = (if 0 \<le> e then 2 ^ nat e else 1 / 2 ^ nat (- e))"

text \<open>The nearest integer, a tie going to the even one.\<close>

definition round_half_even :: "real \<Rightarrow> int" where
  "round_half_even x =
     (let f = \<lfloor>x\<rfloor> in
      if x - real_of_int f < 1 / 2 then f
      else if 1 / 2 < x - real_of_int f then f + 1
      else if even f then f else f + 1)"

text \<open>
  \<open>binade k x\<close> is the exponent \<open>e\<close> with \<open>2^e \<le> x < 2^(e+1)\<close>, found by doubling or
  halving \<open>x\<close> at most \<open>k\<close> times (lemma \<open>binade_bounds\<close>: it is that exponent whenever
  \<open>2^(-k) \<le> x < 2^k\<close>).
\<close>

fun binade :: "nat \<Rightarrow> real \<Rightarrow> int" where
  "binade 0 x = 0"
| "binade (Suc k) x =
     (if x < 1 then binade k (2 * x) - 1
      else if 2 \<le> x then binade k (x / 2) + 1
      else 0)"

text \<open>
  Rounding to float64: 53 bits of mantissa in the binade of \<open>x\<close>, and the spacing
  \<open>2^(-1074)\<close> of the subnormal numbers below \<open>2^(-1022)\<close>. Overflow to infinity (at
  \<open>2^1024\<close>) is not modelled; the values here are probabilities.
\<close>

definition f64_round :: "real \<Rightarrow> real" where
  "f64_round x =
     (if x = 0 then 0
      else let a = \<bar>x\<bar>; e = max (binade 1100 a) (- 1022)
           in sgn x * (real_of_int (round_half_even (a / pow2 (e - 52))) * pow2 (e - 52)))"

text \<open>
  \<^verbatim>\<open>a / b\<close> for a float \<open>a\<close> and an int \<open>b\<close> (converted exactly, class counts being
  small), rounded.
\<close>

definition f64_truediv :: "real \<Rightarrow> int \<Rightarrow> error + real" where
  "f64_truediv a b =
     (if b = 0 then Inl ZeroDivisionError else Inr (f64_round (a / real_of_int b)))"

text \<open>
  Lines 153 to 162 with the rounded operations. The product \<^verbatim>\<open>c * matrix\<close> multiplies
  \<open>c\<close> by the entries of \<^verbatim>\<open>np.ones\<close>, which is exact; the comparison \<^verbatim>\<open>n > 0.0\<close> is
  exact as well.
\<close>

definition symmetric_matrix_f64 :: "int \<Rightarrow> real \<Rightarrow> error + matrix" where
  "symmetric_matrix_f64 nb_classes n =
     bindE (np_ones (nb_classes, nb_classes)) (\<lambda>matrix.
     bindE (f64_truediv n (nb_classes - 1)) (\<lambda>c.
     let matrix = scalar_mul c matrix in
       if n > 0 then
         bindE (setitem matrix (0, 0) (f64_round (1 - n))) (\<lambda>matrix.
         bindE (forE (py_range 1 (nb_classes - 1))
                  (\<lambda>i matrix. setitem matrix (i, i) (f64_round (1 - n))) matrix) (\<lambda>matrix.
         setitem matrix (nb_classes - 1, nb_classes - 1) (f64_round (1 - n))))
       else Inr matrix))"

subsection \<open>Closed forms used in the proofs\<close>

text \<open>
  The matrix whose entry in row \<open>i\<close> and column \<open>j\<close> is \<open>f (i, j)\<close>, the entries after
  the loop over the inner rows has run through rows 1 to \<open>k\<close>, and the entries of the two
  finished matrices.
\<close>

definition table :: "nat \<Rightarrow> (nat \<times> nat \<Rightarrow> real) \<Rightarrow> matrix" where
  "table N f = map (\<lambda>i. map (\<lambda>j. f (i, j)) [0..<N]) [0..<N]"

definition pairflip_rows :: "real \<Rightarrow> nat \<Rightarrow> (nat \<times> nat \<Rightarrow> real) \<Rightarrow> nat \<times> nat \<Rightarrow> real" where
  "pairflip_rows n k f =
     (\<lambda>(i, j). if 1 \<le> i \<and> i \<le> k
        then (if j = i then 1 - n else if j = i + 1 then n else f (i, j))
        else f (i, j))"

definition diagonal_rows :: "real \<Rightarrow> nat \<Rightarrow> (nat \<times> nat \<Rightarrow> real) \<Rightarrow> nat \<times> nat \<Rightarrow> real" where
  "diagonal_rows n k f = (\<lambda>(i, j). if 1 \<le> i \<and> i \<le> k \<and> j = i then 1 - n else f (i, j))"

definition pairflip_entry :: "nat \<Rightarrow> real \<Rightarrow> nat \<times> nat \<Rightarrow> real" where
  "pairflip_entry N n = (\<lambda>(i, j). if j = i then 1 - n else if j = (i + 1) mod N then n else 0)"

definition symmetric_entry :: "nat \<Rightarrow> real \<Rightarrow> nat \<times> nat \<Rightarrow> real" where
  "symmetric_entry N n = (\<lambda>(i, j). if j = i then 1 - n else n / real (N - 1))"

definition symmetric_entry_f64 :: "nat \<Rightarrow> real \<Rightarrow> nat \<times> nat \<Rightarrow> real" where
  "symmetric_entry_f64 N n =
     (\<lambda>(i, j). if j = i then f64_round (1 - n) else f64_round (n / real (N - 1)))"

subsection \<open>The properties the statements speak about\<close>

text \<open>
  A matrix each of whose rows sums to 1 within \<open>1e-6\<close> and has no negative entry.
\<close>

definition row_stochastic :: "matrix \<Rightarrow> bool" where
  "row_stochastic M =
     list_all (\<lambda>row. \<bar>sum_list row - 1\<bar> \<le> 1 / 10 ^ 6 \<and> list_all (\<lambda>x. 0 \<le> x) row) M"

text \<open>
  The four preconditions of the sampler, on a label array that has a maximum.
\<close>

definition sampler_preconditions :: "labels \<Rightarrow> matrix \<Rightarrow> bool" where
  "sampler_preconditions y M \<longleftrightarrow>
       shape0 M = shape1 M
     \<and> Max (set (label_values y)) < int (shape0 M)
     \<and> list_all (\<lambda>row. almost_equal (sum_list row) 1) M
     \<and> list_all (list_all (\<lambda>x. 0 \<le> x)) M"

subsection \<open>Unfolding the model on concrete inputs\<close>

lemmas run_defs =
  multiclass_noisify_def flip_one_def bindT_def emit_def liftT_def returnT_def raiseT_def
  py_assert_def shape0_def shape1_def np_max_def almost_equal_def RandomState_def spec_rng_def
  row_then_first_def bindE_def np_index_def np_multinomial_def one_hot_def np_where_eq1_def
  setitem_label_def mean_not_equal_def upt_conv_Cons

lemmas matrix_defs =
  pairflip_matrix_def symmetric_matrix_def np_eye_def np_ones_def py_truediv_def scalar_mul_def
  setitem_def py_range_def

section \<open>Properties of the transition matrices\<close>

subsection \<open>Matrices given by their entries\<close>

lemma table_nth: "i < N \<Longrightarrow> j < N \<Longrightarrow> table N f ! i ! j = f (i, j)"
  by (simp add: table_def)

lemma table_length: "length (table N f) = N"
  by (simp add: table_def)

lemma table_row_length: "i < N \<Longrightarrow> length (table N f ! i) = N"
  by (simp add: table_def)

lemma shape0_table: "shape0 (table N f) = N"
  by (simp add: shape0_def table_def)

lemma shape1_table: "shape1 (table N f) = N"
  by (cases N) (simp_all add: shape1_def table_def upt_conv_Cons del: upt_Suc)

lemma table_cong: "(\<And>i j. i < N \<Longrightarrow> j < N \<Longrightarrow> f (i, j) = g (i, j)) \<Longrightarrow> table N f = table N g"
  by (simp add: table_def)

lemma table_update:
  assumes "r < N" "c < N"
  shows "(table N f)[r := (table N f ! r)[c := v]] = table N (f((r, c) := v))"
  using assms by (auto simp: table_def list_eq_iff_nth_eq nth_list_update)

lemma setitem_table:
  assumes "0 \<le> i" "i < int N" "0 \<le> j" "j < int N"
  shows "setitem (table N f) (i, j) v = Inr (table N (f((nat i, nat j) := v)))"
  using assms
  by (simp add: setitem_def np_index_def shape0_table shape1_table bindE_def table_update)

lemma np_eye_table: "0 \<le> N \<Longrightarrow> np_eye N = Inr (table (nat N) (\<lambda>(i, j). if i = j then 1 else 0))"
  by (simp add: np_eye_def table_def)

lemma scaled_ones_table: "scalar_mul c (replicate N (replicate N 1)) = table N (\<lambda>_. c)"
  by (simp add: scalar_mul_def table_def map_replicate_const)

lemma forE_append: "forE (xs @ ys) body s = bindE (forE xs body s) (forE ys body)"
  by (induction xs arbitrary: s) (auto simp: bindE_def split: sum.splits)

lemma upto_snoc: "[1..int (Suc k)] = [1..int k] @ [int (Suc k)]"
  using upto_rec2 [of 1 "int (Suc k)"] by simp

subsection \<open>The loops over the inner rows\<close>

lemma pairflip_loop:
  assumes "k + 2 \<le> N"
  shows "forE [1..int k]
           (\<lambda>i matrix. bindE (setitem matrix (i, i) (1 - n)) (\<lambda>matrix. setitem matrix (i, i + 1) n))
           (table N f)
         = Inr (table N (pairflip_rows n k f))"
  using assms
proof (induction k)
  case 0
  have "pairflip_rows n 0 f = f" by (auto simp: pairflip_rows_def fun_eq_iff)
  then show ?case by simp
next
  case (Suc k)
  let ?g = "pairflip_rows n k f"
  have step: "?g((Suc k, Suc k) := 1 - n, (Suc k, Suc (Suc k)) := n) = pairflip_rows n (Suc k) f"
    by (auto simp: pairflip_rows_def fun_eq_iff)
  have s1: "setitem (table N ?g) (int (Suc k), int (Suc k)) (1 - n)
          = Inr (table N (?g((Suc k, Suc k) := 1 - n)))"
    using Suc.prems setitem_table [of "int (Suc k)" N "int (Suc k)" ?g "1 - n"]
    unfolding nat_int by simp
  have s2: "setitem (table N (?g((Suc k, Suc k) := 1 - n))) (int (Suc k), int (Suc k) + 1) n
          = Inr (table N (?g((Suc k, Suc k) := 1 - n, (Suc k, Suc (Suc k)) := n)))"
  proof -
    have "int (Suc k) + 1 = int (Suc (Suc k))" by simp
    then show ?thesis
      using Suc.prems
        setitem_table [of "int (Suc k)" N "int (Suc (Suc k))" "?g((Suc k, Suc k) := 1 - n)" n]
      unfolding nat_int by simp
  qed
  from Suc have IH: "forE [1..int k]
       (\<lambda>i matrix. bindE (setitem matrix (i, i) (1 - n)) (\<lambda>matrix. setitem matrix (i, i + 1) n))
       (table N f) = Inr (table N ?g)"
    by simp
  show ?case
    unfolding upto_snoc forE_append IH using s1 s2 step by (simp add: bindE_def)
qed

lemma symmetric_loop:
  assumes "k + 2 \<le> N"
  shows "forE [1..int k] (\<lambda>i matrix. setitem matrix (i, i) (1 - n)) (table N f)
         = Inr (table N (diagonal_rows n k f))"
  using assms
proof (induction k)
  case 0
  have "diagonal_rows n 0 f = f" by (auto simp: diagonal_rows_def fun_eq_iff)
  then show ?case by simp
next
  case (Suc k)
  let ?g = "diagonal_rows n k f"
  have step: "?g((Suc k, Suc k) := 1 - n) = diagonal_rows n (Suc k) f"
    by (auto simp: diagonal_rows_def fun_eq_iff)
  have s1: "setitem (table N ?g) (int (Suc k), int (Suc k)) (1 - n)
          = Inr (table N (?g((Suc k, Suc k) := 1 - n)))"
    using Suc.prems setitem_table [of "int (Suc k)" N "int (Suc k)" ?g "1 - n"]
    unfolding nat_int by simp
  from Suc have IH: "forE [1..int k] (\<lambda>i matrix. setitem matrix (i, i) (1 - n)) (table N f)
       = Inr (table N ?g)"
    by simp
  show ?case
    unfolding upto_snoc forE_append IH using s1 step by (simp add: bindE_def)
qed

subsection \<open>The matrices in closed form\<close>

lemma pairflip_matrix_nat:
  assumes N: "2 \<le> N" and n: "0 < n"
  shows "pairflip_matrix (int N) n = Inr (table N (pairflip_entry N n))"
proof -
  define k where "k = N - 2"
  have k: "k + 2 \<le> N" "int N - 1 - 1 = int k" using N by (simp_all add: k_def)
  let ?e = "\<lambda>(i::nat, j::nat). if i = j then (1::real) else 0"
  let ?f0 = "?e((0, 0) := 1 - n, (0, 1) := n)"
  let ?body = "\<lambda>i matrix. bindE (setitem matrix (i, i) (1 - n))
                               (\<lambda>matrix. setitem matrix (i, i + 1) n)"
  have a: "np_eye (int N) = Inr (table N ?e)" using np_eye_table [of "int N"] by simp
  have b: "setitem (table N ?e) (0, 0) (1 - n) = Inr (table N (?e((0, 0) := 1 - n)))"
    using setitem_table [of 0 N 0 ?e "1 - n"] N by simp
  have c: "setitem (table N (?e((0, 0) := 1 - n))) (0, 1) n = Inr (table N ?f0)"
    using setitem_table [of 0 N 1 "?e((0, 0) := 1 - n)" n] N by simp
  have d: "forE (py_range 1 (int N - 1)) ?body (table N ?f0)
         = Inr (table N (pairflip_rows n k ?f0))"
    unfolding py_range_def k(2) using k(1) by (rule pairflip_loop)
  let ?f1 = "(pairflip_rows n k ?f0)((N - 1, N - 1) := 1 - n)"
  have e: "setitem (table N (pairflip_rows n k ?f0)) (int N - 1, int N - 1) (1 - n)
         = Inr (table N ?f1)"
    using setitem_table [of "int N - 1" N "int N - 1" "pairflip_rows n k ?f0" "1 - n"] N
    by (simp add: nat_diff_distrib)
  have f: "setitem (table N ?f1) (int N - 1, 0) n = Inr (table N (?f1((N - 1, 0) := n)))"
    using setitem_table [of "int N - 1" N 0 ?f1 n] N by (simp add: nat_diff_distrib)
  have g: "table N (?f1((N - 1, 0) := n)) = table N (pairflip_entry N n)"
    by (rule table_cong)
       (use N in \<open>auto simp: pairflip_rows_def pairflip_entry_def k_def mod_Suc split: if_splits\<close>)
  show ?thesis
    unfolding pairflip_matrix_def a using n b c d e f g by (simp add: bindE_def)
qed

lemma symmetric_matrix_nat:
  assumes N: "2 \<le> N" and n: "0 < n"
  shows "symmetric_matrix (int N) n = Inr (table N (symmetric_entry N n))"
proof -
  define k where "k = N - 2"
  define c where "c = n / real (N - 1)"
  have k: "k + 2 \<le> N" "int N - 1 - 1 = int k" using N by (simp_all add: k_def)
  let ?f0 = "(\<lambda>_. c)((0, 0) := 1 - n)"
  have a: "np_ones (int N, int N) = Inr (replicate N (replicate N 1))"
    by (simp add: np_ones_def)
  have q: "py_truediv n (int N - 1) = Inr c"
    using N by (simp add: py_truediv_def c_def of_nat_diff)
  have b: "setitem (table N (\<lambda>_. c)) (0, 0) (1 - n) = Inr (table N ?f0)"
    using setitem_table [of 0 N 0 "\<lambda>_. c" "1 - n"] N by simp
  have d: "forE (py_range 1 (int N - 1)) (\<lambda>i matrix. setitem matrix (i, i) (1 - n)) (table N ?f0)
         = Inr (table N (diagonal_rows n k ?f0))"
    unfolding py_range_def k(2) using k(1) by (rule symmetric_loop)
  let ?f1 = "(diagonal_rows n k ?f0)((N - 1, N - 1) := 1 - n)"
  have e: "setitem (table N (diagonal_rows n k ?f0)) (int N - 1, int N - 1) (1 - n)
         = Inr (table N ?f1)"
    using setitem_table [of "int N - 1" N "int N - 1" "diagonal_rows n k ?f0" "1 - n"] N
    by (simp add: nat_diff_distrib)
  have g: "table N ?f1 = table N (symmetric_entry N n)"
    by (rule table_cong)
       (use N in \<open>auto simp: diagonal_rows_def symmetric_entry_def k_def c_def split: if_splits\<close>)
  show ?thesis
    unfolding symmetric_matrix_def a q using n b d e g
    by (simp add: bindE_def scaled_ones_table)
qed

subsection \<open>Float64 rounding\<close>

lemma pow2_powi: "pow2 e = 2 powi e"
  by (simp add: pow2_def power_int_def field_simps)

lemma pow2_pos: "0 < pow2 e"
  by (simp add: pow2_powi)

lemma pow2_succ: "pow2 (e + 1) = 2 * pow2 e"
  by (simp add: pow2_powi power_int_add)

lemma pow2_pred: "pow2 (e - 1) = pow2 e / 2"
  by (simp add: pow2_powi power_int_diff)

lemma binade_bounds:
  assumes "pow2 (- int k) \<le> x" and "x < pow2 (int k)"
  shows "pow2 (binade k x) \<le> x \<and> x < 2 * pow2 (binade k x)"
  using assms
proof (induction k arbitrary: x)
  case 0
  then show ?case by (simp add: pow2_def)
next
  case (Suc k)
  have i1: "- int (Suc k) = - int k - 1" by simp
  have lo: "pow2 (- int (Suc k)) = pow2 (- int k) / 2"
    unfolding i1 by (rule pow2_pred)
  have i2: "int (Suc k) = int k + 1" by simp
  have hi: "pow2 (int (Suc k)) = 2 * pow2 (int k)"
    unfolding i2 by (rule pow2_succ)
  show ?case
  proof (cases "x < 1")
    case True
    show ?thesis
    proof (cases k)
      case 0
      with Suc.prems(1) lo True show ?thesis by (simp add: pow2_def)
    next
      case (Suc k')
      have "pow2 (int k) = (2::real) ^ k" by (simp add: pow2_def)
      moreover have "(2::real) ^ 1 \<le> 2 ^ k" using Suc by (intro power_increasing) simp_all
      ultimately have "2 \<le> pow2 (int k)" by simp
      with True have "2 * x < pow2 (int k)" by simp
      moreover have "pow2 (- int k) \<le> 2 * x" using Suc.prems(1) lo by simp
      ultimately have "pow2 (binade k (2 * x)) \<le> 2 * x \<and> 2 * x < 2 * pow2 (binade k (2 * x))"
        using Suc.IH by blast
      then show ?thesis using True by (simp add: pow2_pred)
    qed
  next
    case False
    show ?thesis
    proof (cases "2 \<le> x")
      case True
      have "x / 2 < pow2 (int k)" using Suc.prems(2) hi by simp
      moreover have "pow2 (- int k) \<le> x / 2"
      proof -
        have "pow2 (- int k) \<le> 1" by (simp add: pow2_def)
        with True show ?thesis by simp
      qed
      ultimately have "pow2 (binade k (x / 2)) \<le> x / 2 \<and> x / 2 < 2 * pow2 (binade k (x / 2))"
        using Suc.IH by blast
      then show ?thesis using True False by (simp add: pow2_succ)
    next
      case F2: False
      with False show ?thesis by (simp add: pow2_def)
    qed
  qed
qed

lemma binade_numeral:
  "binade (numeral k) x =
     (if x < 1 then binade (pred_numeral k) (2 * x) - 1
      else if 2 \<le> x then binade (pred_numeral k) (x / 2) + 1
      else 0)"
  by (simp add: numeral_eq_Suc)

lemma f64_round_pos:
  assumes "0 < x" and "binade 1100 x = e" and "- 1022 \<le> e"
    and "round_half_even (x / pow2 (e - 52)) = m"
  shows "f64_round x = real_of_int m * pow2 (e - 52)"
  using assms by (simp add: f64_round_def Let_def)

lemma f64_three_tenths: "f64_round (3 / 10) = 5404319552844595 / 2 ^ 54"
proof -
  have a: "binade 1100 (3 / 10) = - 2" by (simp add: binade_numeral)
  have b: "round_half_even ((3 / 10) / pow2 (- 2 - 52)) = 5404319552844595"
    by (simp add: round_half_even_def Let_def pow2_def)
  show ?thesis
    using f64_round_pos [of "3 / 10" "- 2" 5404319552844595] a b by (simp add: pow2_def)
qed

lemma f64_one_tenth: "f64_round (1 / 10) = 3602879701896397 / 2 ^ 55"
proof -
  have a: "binade 1100 (1 / 10) = - 4" by (simp add: binade_numeral)
  have b: "round_half_even ((1 / 10) / pow2 (- 4 - 52)) = 7205759403792794"
    by (simp add: round_half_even_def Let_def pow2_def)
  show ?thesis
    using f64_round_pos [of "1 / 10" "- 4" 7205759403792794] a b by (simp add: pow2_def)
qed

lemma f64_seven_tenths: "f64_round (7 / 10) = 6305039478318694 / 2 ^ 53"
proof -
  have a: "binade 1100 (7 / 10) = - 1" by (simp add: binade_numeral)
  have b: "round_half_even ((7 / 10) / pow2 (- 1 - 52)) = 6305039478318694"
    by (simp add: round_half_even_def Let_def pow2_def)
  show ?thesis
    using f64_round_pos [of "7 / 10" "- 1" 6305039478318694] a b by (simp add: pow2_def)
qed

lemma f64_quotient: "f64_round ((5404319552844595 / 2 ^ 54) / 3) = 7205759403792793 / 2 ^ 56"
proof -
  have a: "binade 1100 ((5404319552844595 / 2 ^ 54) / 3) = - 4" by (simp add: binade_numeral)
  have b: "round_half_even (((5404319552844595 / 2 ^ 54) / 3) / pow2 (- 4 - 52)) = 7205759403792793"
    by (simp add: round_half_even_def Let_def pow2_def)
  show ?thesis
    using f64_round_pos [of "(5404319552844595 / 2 ^ 54) / 3" "- 4" 7205759403792793] a b
    by (simp add: pow2_def)
qed

lemma f64_difference: "f64_round (1 - 5404319552844595 / 2 ^ 54) = 6305039478318694 / 2 ^ 53"
proof -
  have a: "binade 1100 (1 - 5404319552844595 / 2 ^ 54) = - 1" by (simp add: binade_numeral)
  have b: "round_half_even ((1 - 5404319552844595 / 2 ^ 54) / pow2 (- 1 - 52)) = 6305039478318694"
    by (simp add: round_half_even_def Let_def pow2_def)
  show ?thesis
    using f64_round_pos [of "1 - 5404319552844595 / 2 ^ 54" "- 1" 6305039478318694] a b
    by (simp add: pow2_def)
qed

lemma symmetric_matrix_f64_nat:
  assumes N: "2 \<le> N" and n: "0 < n"
  shows "symmetric_matrix_f64 (int N) n = Inr (table N (symmetric_entry_f64 N n))"
proof -
  define k where "k = N - 2"
  define c where "c = f64_round (n / real (N - 1))"
  define d where "d = f64_round (1 - n)"
  have k: "k + 2 \<le> N" "int N - 1 - 1 = int k" using N by (simp_all add: k_def)
  have d: "1 - (1 - d) = d" by simp
  let ?f0 = "(\<lambda>_. c)((0, 0) := d)"
  have a: "np_ones (int N, int N) = Inr (replicate N (replicate N 1))"
    by (simp add: np_ones_def)
  have q: "f64_truediv n (int N - 1) = Inr c"
    using N by (simp add: f64_truediv_def c_def of_nat_diff)
  have b: "setitem (table N (\<lambda>_. c)) (0, 0) d = Inr (table N ?f0)"
    using setitem_table [of 0 N 0 "\<lambda>_. c" d] N by simp
  have l: "forE (py_range 1 (int N - 1)) (\<lambda>i matrix. setitem matrix (i, i) d) (table N ?f0)
         = Inr (table N (diagonal_rows (1 - d) k ?f0))"
    unfolding py_range_def k(2) using symmetric_loop [OF k(1), of "1 - d" ?f0] unfolding d .
  let ?f1 = "(diagonal_rows (1 - d) k ?f0)((N - 1, N - 1) := d)"
  have e: "setitem (table N (diagonal_rows (1 - d) k ?f0)) (int N - 1, int N - 1) d
         = Inr (table N ?f1)"
    using setitem_table [of "int N - 1" N "int N - 1" "diagonal_rows (1 - d) k ?f0" d] N
    by (simp add: nat_diff_distrib)
  have g: "table N ?f1 = table N (symmetric_entry_f64 N n)"
    by (rule table_cong)
       (use N in \<open>auto simp: diagonal_rows_def symmetric_entry_f64_def k_def c_def d_def split: if_splits\<close>)
  show ?thesis
    unfolding symmetric_matrix_f64_def a q using n b l e g
    by (simp add: bindE_def scaled_ones_table d_def [symmetric])
qed

subsection \<open>Entries of the two matrices\<close>

text \<open>
  C1. For every class count \<open>C \<ge> 2\<close> and noise level \<open>n > 0\<close> (in particular for
  \<open>n\<close> in \<open>(0, 1]\<close>) the pairflip matrix is a \<open>C \<times> C\<close> matrix with \<open>1 - n\<close> on the
  diagonal, \<open>n\<close> in column \<open>(i + 1) mod C\<close> of row \<open>i\<close> (so row \<open>C - 1\<close> wraps to column 0)
  and 0 elsewhere; for \<open>C = 3\<close> and \<open>n = 0.5\<close> it is the matrix of the spec's first example.
\<close>

theorem pairflip_matrix_entries:
  assumes "2 \<le> C" and "0 < n"
  shows "(\<exists>M. pairflip_matrix C n = Inr M \<and> length M = nat C \<and>
            (\<forall>i<nat C. length (M ! i) = nat C \<and>
               (\<forall>j<nat C. M ! i ! j =
                  (if j = i then 1 - n else if j = (i + 1) mod nat C then n else 0))))
         \<and> pairflip_matrix 3 0.5 = Inr [[0.5, 0.5, 0], [0, 0.5, 0.5], [0.5, 0, 0.5]]"
proof
  have N: "2 \<le> nat C" "int (nat C) = C" using assms(1) by simp_all
  have "pairflip_matrix C n = Inr (table (nat C) (pairflip_entry (nat C) n))"
    using pairflip_matrix_nat [OF N(1) assms(2)] unfolding N(2) .
  then show "\<exists>M. pairflip_matrix C n = Inr M \<and> length M = nat C \<and>
            (\<forall>i<nat C. length (M ! i) = nat C \<and>
               (\<forall>j<nat C. M ! i ! j =
                  (if j = i then 1 - n else if j = (i + 1) mod nat C then n else 0)))"
    by (simp add: table_length table_row_length table_nth pairflip_entry_def)
next
  have "pairflip_matrix (int 3) (1 / 2) = Inr (table 3 (pairflip_entry 3 (1 / 2)))"
    by (rule pairflip_matrix_nat) simp_all
  then show "pairflip_matrix 3 0.5 = Inr [[0.5, 0.5, 0], [0, 0.5, 0.5], [0.5, 0, 0.5]]"
    by (simp add: table_def pairflip_entry_def upt_conv_Cons)
qed

theorem pairflip_matrix_entries_witness:
  "(2::int) \<le> 4 \<and> (0::real) < 1 / 4 \<and>
   (\<exists>M. pairflip_matrix 4 (1 / 4) = Inr M \<and> length M = 4 \<and>
      M ! 3 ! 3 = 3 / 4 \<and> M ! 3 ! 0 = 1 / 4 \<and> M ! 3 ! 1 = 0 \<and> M ! 1 ! 2 = 1 / 4)"
proof -
  have h1: "(2::int) \<le> 4" and h2: "(0::real) < 1 / 4" by simp_all
  from pairflip_matrix_entries [OF h1 h2] obtain M where
    M: "pairflip_matrix 4 (1 / 4) = Inr M" "length M = nat 4"
       "\<forall>i<nat 4. length (M ! i) = nat 4 \<and>
          (\<forall>j<nat 4. M ! i ! j =
             (if j = i then 1 - 1 / 4 else if j = (i + 1) mod nat 4 then 1 / 4 else (0::real)))"
    by blast
  have e: "\<And>i j. i < 4 \<Longrightarrow> j < 4 \<Longrightarrow> M ! i ! j =
             (if j = i then 3 / 4 else if j = (i + 1) mod 4 then 1 / 4 else (0::real))"
    using M(3) by simp
  have "M ! 3 ! 3 = 3 / 4" "M ! 3 ! 0 = 1 / 4" "M ! 3 ! 1 = 0" "M ! 1 ! 2 = 1 / 4"
    using e [of 3 3] e [of 3 0] e [of 3 1] e [of 1 2] by simp_all
  with M(1,2) h1 h2 show ?thesis by simp
qed

text \<open>
  C2, as the code has it. For every class count \<open>C \<ge> 2\<close> and noise level \<open>n > 0\<close> (in
  particular for \<open>n\<close> in \<open>(0, 1]\<close>) the symmetric matrix is a \<open>C \<times> C\<close> matrix with
  \<open>1 - n\<close> on the diagonal and \<open>n / (C - 1)\<close> everywhere else: with exact arithmetic these
  very values, with the float64 arithmetic of the source each of the two rounded to
  float64. For \<open>C = 4\<close> and \<open>n = 0.3\<close> (the float64 nearest to it) the diagonal is the
  float64 \<open>0.7\<close> and every other entry is the float64 quotient
  \<open>7205759403792793 / 2^56\<close>, printed \<^verbatim>\<open>0.09999999999999999\<close>, which is within \<open>1e-16\<close> of
  \<open>0.1\<close>.
\<close>

theorem symmetric_matrix_float_entries:
  assumes "2 \<le> C" and "0 < n"
  shows "(\<exists>M. symmetric_matrix C n = Inr M \<and> length M = nat C \<and>
            (\<forall>i<nat C. length (M ! i) = nat C \<and>
               (\<forall>j<nat C. M ! i ! j = (if j = i then 1 - n else n / real_of_int (C - 1)))))
       \<and> (\<exists>M. symmetric_matrix_f64 C n = Inr M \<and> length M = nat C \<and>
            (\<forall>i<nat C. length (M ! i) = nat C \<and>
               (\<forall>j<nat C. M ! i ! j =
                  (if j = i then f64_round (1 - n) else f64_round (n / real_of_int (C - 1))))))
       \<and> symmetric_matrix_f64 4 (f64_round 0.3) =
             Inr [[6305039478318694 / 2 ^ 53, 7205759403792793 / 2 ^ 56,
                   7205759403792793 / 2 ^ 56, 7205759403792793 / 2 ^ 56],
                  [7205759403792793 / 2 ^ 56, 6305039478318694 / 2 ^ 53,
                   7205759403792793 / 2 ^ 56, 7205759403792793 / 2 ^ 56],
                  [7205759403792793 / 2 ^ 56, 7205759403792793 / 2 ^ 56,
                   6305039478318694 / 2 ^ 53, 7205759403792793 / 2 ^ 56],
                  [7205759403792793 / 2 ^ 56, 7205759403792793 / 2 ^ 56,
                   7205759403792793 / 2 ^ 56, 6305039478318694 / 2 ^ 53]]
       \<and> f64_round 0.7 = 6305039478318694 / 2 ^ 53
       \<and> \<bar>7205759403792793 / 2 ^ 56 - 1 / 10\<bar> < (1 / 10 ^ 16 :: real)"
proof (intro conjI)
  have N: "2 \<le> nat C" "int (nat C) = C" using assms(1) by simp_all
  have r: "real (nat C - 1) = real_of_int (C - 1)" using assms(1) by (simp add: of_nat_diff)
  have "symmetric_matrix C n = Inr (table (nat C) (symmetric_entry (nat C) n))"
    using symmetric_matrix_nat [OF N(1) assms(2)] unfolding N(2) .
  then show "\<exists>M. symmetric_matrix C n = Inr M \<and> length M = nat C \<and>
            (\<forall>i<nat C. length (M ! i) = nat C \<and>
               (\<forall>j<nat C. M ! i ! j = (if j = i then 1 - n else n / real_of_int (C - 1))))"
    using r by (simp add: table_length table_row_length table_nth symmetric_entry_def)
  have "symmetric_matrix_f64 C n = Inr (table (nat C) (symmetric_entry_f64 (nat C) n))"
    using symmetric_matrix_f64_nat [OF N(1) assms(2)] unfolding N(2) .
  then show "\<exists>M. symmetric_matrix_f64 C n = Inr M \<and> length M = nat C \<and>
            (\<forall>i<nat C. length (M ! i) = nat C \<and>
               (\<forall>j<nat C. M ! i ! j =
                  (if j = i then f64_round (1 - n) else f64_round (n / real_of_int (C - 1)))))"
    using r by (simp add: table_length table_row_length table_nth symmetric_entry_f64_def)
next
  have n: "f64_round 0.3 = 5404319552844595 / 2 ^ 54" using f64_three_tenths by simp
  have q: "f64_round (5404319552844595 / (2 ^ 54 * 3)) = 7205759403792793 / 2 ^ 56"
    using f64_quotient by (simp del: power_numeral)
  have "symmetric_matrix_f64 (int 4) (5404319552844595 / 2 ^ 54)
      = Inr (table 4 (symmetric_entry_f64 4 (5404319552844595 / 2 ^ 54)))"
    by (rule symmetric_matrix_f64_nat) simp_all
  then show "symmetric_matrix_f64 4 (f64_round 0.3) =
             Inr [[6305039478318694 / 2 ^ 53, 7205759403792793 / 2 ^ 56,
                   7205759403792793 / 2 ^ 56, 7205759403792793 / 2 ^ 56],
                  [7205759403792793 / 2 ^ 56, 6305039478318694 / 2 ^ 53,
                   7205759403792793 / 2 ^ 56, 7205759403792793 / 2 ^ 56],
                  [7205759403792793 / 2 ^ 56, 7205759403792793 / 2 ^ 56,
                   6305039478318694 / 2 ^ 53, 7205759403792793 / 2 ^ 56],
                  [7205759403792793 / 2 ^ 56, 7205759403792793 / 2 ^ 56,
                   7205759403792793 / 2 ^ 56, 6305039478318694 / 2 ^ 53]]"
    unfolding n
    by (simp add: table_def symmetric_entry_f64_def upt_conv_Cons f64_difference q
          del: power_numeral)
next
  show "f64_round 0.7 = 6305039478318694 / 2 ^ 53" using f64_seven_tenths by simp
next
  show "\<bar>7205759403792793 / 2 ^ 56 - 1 / 10\<bar> < (1 / 10 ^ 16 :: real)" by simp
qed

theorem symmetric_matrix_float_entries_witness:
  "(2::int) \<le> 5 \<and> (0::real) < 2 / 5 \<and>
   (\<exists>M. symmetric_matrix 5 (2 / 5) = Inr M \<and> length M = 5 \<and>
      M ! 2 ! 2 = 3 / 5 \<and> M ! 2 ! 0 = 1 / 10 \<and> M ! 4 ! 3 = 1 / 10) \<and>
   (\<exists>M. symmetric_matrix_f64 5 (2 / 5) = Inr M \<and> length M = 5 \<and>
      M ! 2 ! 2 = f64_round (1 - 2 / 5) \<and> M ! 2 ! 0 = f64_round ((2 / 5) / 4))"
proof -
  have h1: "(2::int) \<le> 5" and h2: "(0::real) < 2 / 5" by simp_all
  from symmetric_matrix_float_entries [OF h1 h2] obtain M where
    M: "symmetric_matrix 5 (2 / 5) = Inr M" "length M = nat 5"
       "\<forall>i<nat 5. length (M ! i) = nat 5 \<and>
          (\<forall>j<nat 5. M ! i ! j = (if j = i then 1 - 2 / 5 else (2 / 5) / real_of_int (5 - 1)))"
    by blast
  from symmetric_matrix_float_entries [OF h1 h2] obtain F where
    F: "symmetric_matrix_f64 5 (2 / 5) = Inr F" "length F = nat 5"
       "\<forall>i<nat 5. length (F ! i) = nat 5 \<and>
          (\<forall>j<nat 5. F ! i ! j =
             (if j = i then f64_round (1 - 2 / 5) else f64_round ((2 / 5) / real_of_int (5 - 1))))"
    by blast
  have e: "\<And>i j. i < 5 \<Longrightarrow> j < 5 \<Longrightarrow> M ! i ! j = (if j = i then 3 / 5 else (1 / 10 :: real))"
    using M(3) by simp
  have f: "\<And>i j. i < 5 \<Longrightarrow> j < 5 \<Longrightarrow>
             F ! i ! j = (if j = i then f64_round (1 - 2 / 5) else f64_round ((2 / 5) / 4))"
    using F(3) by simp
  have m: "M ! 2 ! 2 = 3 / 5" "M ! 2 ! 0 = 1 / 10" "M ! 4 ! 3 = 1 / 10"
    using e [of 2 2] e [of 2 0] e [of 4 3] by simp_all
  have g: "F ! 2 ! 2 = f64_round (1 - 2 / 5)" "F ! 2 ! 0 = f64_round ((2 / 5) / 4)"
    using f [of 2 2] f [of 2 0] by simp_all
  have "\<exists>M. symmetric_matrix 5 (2 / 5) = Inr M \<and> length M = 5 \<and>
      M ! 2 ! 2 = 3 / 5 \<and> M ! 2 ! 0 = 1 / 10 \<and> M ! 4 ! 3 = 1 / 10"
    using M(1,2) m by simp
  moreover have "\<exists>M. symmetric_matrix_f64 5 (2 / 5) = Inr M \<and> length M = 5 \<and>
      M ! 2 ! 2 = f64_round (1 - 2 / 5) \<and> M ! 2 ! 0 = f64_round ((2 / 5) / 4)"
    using F(1,2) g by simp
  ultimately show ?thesis using h1 h2 by blast
qed

text \<open>
  The quotient \<^verbatim>\<open>0.3 / 3\<close> of the example is not the float64 \<open>0.1\<close>, which is
  \<open>3602879701896397 / 2^55\<close>, one unit in the last place above it; nor is it the real
  number \<open>1 / 10\<close>.
\<close>

theorem symmetric_example_float_counterexample:
  "symmetric_matrix_f64 4 (f64_round (3 / 10)) =
     Inr [[6305039478318694 / 2 ^ 53, 7205759403792793 / 2 ^ 56,
           7205759403792793 / 2 ^ 56, 7205759403792793 / 2 ^ 56],
          [7205759403792793 / 2 ^ 56, 6305039478318694 / 2 ^ 53,
           7205759403792793 / 2 ^ 56, 7205759403792793 / 2 ^ 56],
          [7205759403792793 / 2 ^ 56, 7205759403792793 / 2 ^ 56,
           6305039478318694 / 2 ^ 53, 7205759403792793 / 2 ^ 56],
          [7205759403792793 / 2 ^ 56, 7205759403792793 / 2 ^ 56,
           7205759403792793 / 2 ^ 56, 6305039478318694 / 2 ^ 53]]
   \<and> f64_round (1 / 10) = 3602879701896397 / 2 ^ 55
   \<and> (7205759403792793 / 2 ^ 56 :: real) \<noteq> 3602879701896397 / 2 ^ 55
   \<and> (7205759403792793 / 2 ^ 56 :: real) \<noteq> 1 / 10"
proof (intro conjI)
  have q: "f64_round (5404319552844595 / (2 ^ 54 * 3)) = 7205759403792793 / 2 ^ 56"
    using f64_quotient by (simp del: power_numeral)
  have "symmetric_matrix_f64 (int 4) (5404319552844595 / 2 ^ 54)
      = Inr (table 4 (symmetric_entry_f64 4 (5404319552844595 / 2 ^ 54)))"
    by (rule symmetric_matrix_f64_nat) simp_all
  then show "symmetric_matrix_f64 4 (f64_round (3 / 10)) =
     Inr [[6305039478318694 / 2 ^ 53, 7205759403792793 / 2 ^ 56,
           7205759403792793 / 2 ^ 56, 7205759403792793 / 2 ^ 56],
          [7205759403792793 / 2 ^ 56, 6305039478318694 / 2 ^ 53,
           7205759403792793 / 2 ^ 56, 7205759403792793 / 2 ^ 56],
          [7205759403792793 / 2 ^ 56, 7205759403792793 / 2 ^ 56,
           6305039478318694 / 2 ^ 53, 7205759403792793 / 2 ^ 56],
          [7205759403792793 / 2 ^ 56, 7205759403792793 / 2 ^ 56,
           7205759403792793 / 2 ^ 56, 6305039478318694 / 2 ^ 53]]"
    unfolding f64_three_tenths
    by (simp add: table_def symmetric_entry_f64_def upt_conv_Cons f64_difference q
          del: power_numeral)
next
  show "f64_round (1 / 10) = 3602879701896397 / 2 ^ 55" by (rule f64_one_tenth)
next
  show "(7205759403792793 / 2 ^ 56 :: real) \<noteq> 3602879701896397 / 2 ^ 55" by simp
next
  show "(7205759403792793 / 2 ^ 56 :: real) \<noteq> 1 / 10" by simp
qed

subsection \<open>Row sums\<close>

lemma table_rows:
  "list_all P (table N f) \<longleftrightarrow> (\<forall>i<N. P (map (\<lambda>j. f (i, j)) [0..<N]))"
  by (auto simp: table_def list_all_iff)

lemma sum_list_row: "sum_list (map g [0..<N]) = sum g {0..<N}"
  by (simp add: interv_sum_list_conv_sum_set_nat)

lemma pairflip_row_sum:
  assumes "2 \<le> N" "i < N"
  shows "sum_list (map (\<lambda>j. pairflip_entry N n (i, j)) [0..<N]) = 1"
proof -
  let ?s = "(i + 1) mod N"
  have ne: "?s \<noteq> i" using assms by (auto simp: mod_Suc)
  have s: "?s < N" using assms by simp
  have "sum (\<lambda>j. pairflip_entry N n (i, j)) {0..<N}
      = sum (\<lambda>j. (if j = i then 1 - n else 0) + (if j = ?s then n else 0)) {0..<N}"
    by (rule sum.cong) (use ne in \<open>auto simp: pairflip_entry_def\<close>)
  also have "\<dots> = sum (\<lambda>j. if j = i then 1 - n else 0) {0..<N}
                 + sum (\<lambda>j. if j = ?s then n else 0) {0..<N}"
    by (rule sum.distrib)
  also have "\<dots> = (1 - n) + n" using assms(2) s by simp
  finally show ?thesis by (simp add: sum_list_row)
qed

lemma symmetric_row_sum:
  assumes "2 \<le> N" "i < N"
  shows "sum_list (map (\<lambda>j. symmetric_entry N n (i, j)) [0..<N]) = 1"
proof -
  define c where "c = n / real (N - 1)"
  have c: "real (N - 1) * c = n" using assms(1) by (simp add: c_def)
  have "sum (\<lambda>j. symmetric_entry N n (i, j)) {0..<N}
      = sum (\<lambda>j. c + (if j = i then 1 - n - c else 0)) {0..<N}"
    by (rule sum.cong) (auto simp: symmetric_entry_def c_def)
  also have "\<dots> = sum (\<lambda>j. c) {0..<N} + sum (\<lambda>j. if j = i then 1 - n - c else 0) {0..<N}"
    by (rule sum.distrib)
  also have "\<dots> = real N * c + (1 - n - c)" using assms(2) by simp
  also have "\<dots> = real (N - 1) * c + (1 - n)" using assms(1) by (simp add: of_nat_diff algebra_simps)
  also have "\<dots> = 1" using c by simp
  finally show ?thesis by (simp add: sum_list_row)
qed

lemma eye_row_sum:
  assumes "i < N"
  shows "sum_list (map (\<lambda>j. if i = j then (1::real) else 0) [0..<N]) = 1"
proof -
  have "(\<lambda>j. if i = j then (1::real) else 0) = (\<lambda>j. if j = i then 1 else 0)" by auto
  then show ?thesis using assms by (simp add: sum_list_row)
qed

lemma pairflip_entry_nonneg: "0 \<le> n \<Longrightarrow> n \<le> 1 \<Longrightarrow> 0 \<le> pairflip_entry N n (i, j)"
  by (simp add: pairflip_entry_def)

lemma symmetric_entry_nonneg: "0 \<le> n \<Longrightarrow> n \<le> 1 \<Longrightarrow> 0 \<le> symmetric_entry N n (i, j)"
  by (simp add: symmetric_entry_def)

lemma pairflip_table_stochastic:
  assumes "2 \<le> N" "0 \<le> n" "n \<le> 1"
  shows "row_stochastic (table N (pairflip_entry N n))"
  unfolding row_stochastic_def table_rows
  using assms by (simp add: pairflip_row_sum list_all_iff pairflip_entry_nonneg)

lemma symmetric_table_stochastic:
  assumes "2 \<le> N" "0 \<le> n" "n \<le> 1"
  shows "row_stochastic (table N (symmetric_entry N n))"
  unfolding row_stochastic_def table_rows
  using assms by (simp add: symmetric_row_sum list_all_iff symmetric_entry_nonneg)

lemma eye_stochastic: "row_stochastic (table N (\<lambda>(i, j). if i = j then 1 else 0))"
  unfolding row_stochastic_def table_rows
  by (simp add: eye_row_sum list_all_iff)

text \<open>
  C3, as the code has it. For every class count \<open>C \<ge> 2\<close> and noise level \<open>n\<close> in
  \<open>(0, 1]\<close>, each row of the matrix built for either topology sums to 1 (exactly, hence
  within \<open>1e-6\<close>) and has no negative entry; at \<open>n = 0\<close> the same holds for the pairflip
  matrix, which is the identity. The symmetric matrix at \<open>n = 0\<close> is left out: there the
  diagonal is not overwritten and every row sums to 0 (see the closed example after the
  theorem).
\<close>

theorem built_matrix_row_stochastic:
  assumes "2 \<le> C" and "0 < n" and "n \<le> 1"
  shows "(\<exists>M. pairflip_matrix C n = Inr M \<and> row_stochastic M)
       \<and> (\<exists>M. symmetric_matrix C n = Inr M \<and> row_stochastic M)
       \<and> (\<exists>M. pairflip_matrix C 0 = Inr M \<and> row_stochastic M)"
proof -
  have N: "2 \<le> nat C" "int (nat C) = C" "0 \<le> C" using assms(1) by simp_all
  have n: "0 \<le> n" using assms(2) by simp
  have p: "pairflip_matrix C n = Inr (table (nat C) (pairflip_entry (nat C) n))"
    using pairflip_matrix_nat [OF N(1) assms(2)] unfolding N(2) .
  have s: "symmetric_matrix C n = Inr (table (nat C) (symmetric_entry (nat C) n))"
    using symmetric_matrix_nat [OF N(1) assms(2)] unfolding N(2) .
  have z: "pairflip_matrix C 0 = Inr (table (nat C) (\<lambda>(i, j). if i = j then 1 else 0))"
    using np_eye_table [OF N(3)] by (simp add: pairflip_matrix_def bindE_def)
  show ?thesis
    unfolding p s z
    using pairflip_table_stochastic [OF N(1) n assms(3)]
      symmetric_table_stochastic [OF N(1) n assms(3)] eye_stochastic [of "nat C"]
    by simp
qed

theorem built_matrix_row_stochastic_witness:
  "(2::int) \<le> 2 \<and> (0::real) < 1 \<and> (1::real) \<le> 1
   \<and> pairflip_matrix 2 1 = Inr [[0, 1], [1, 0]] \<and> row_stochastic [[0, 1], [1, 0]]
   \<and> symmetric_matrix 2 1 = Inr [[0, 1], [1, 0]]
   \<and> pairflip_matrix 2 0 = Inr [[1, 0], [0, 1]] \<and> row_stochastic [[1, 0], [0, 1]]"
proof -
  have h1: "(2::int) \<le> 2" and h2: "(0::real) < 1" and h3: "(1::real) \<le> 1" by simp_all
  have p: "pairflip_matrix 2 1 = Inr [[0, 1], [1, 0]]"
    by (simp add: pairflip_matrix_def np_eye_def bindE_def setitem_def np_index_def shape0_def
          shape1_def py_range_def numeral_eq_Suc)
  have s: "symmetric_matrix 2 1 = Inr [[0, 1], [1, 0]]"
    by (simp add: symmetric_matrix_def np_ones_def py_truediv_def scalar_mul_def bindE_def
          setitem_def np_index_def shape0_def shape1_def py_range_def numeral_eq_Suc)
  have z: "pairflip_matrix 2 0 = Inr [[1, 0], [0, 1]]"
    by (simp add: pairflip_matrix_def np_eye_def bindE_def numeral_eq_Suc)
  from built_matrix_row_stochastic [OF h1 h2 h3] p s z show ?thesis by simp
qed

text \<open>
  At \<open>n = 0\<close> the symmetric code multiplies the matrix of ones by \<open>0 / (C - 1)\<close> and skips
  the diagonal, since the guard \<^verbatim>\<open>n > 0.0\<close> is false: the rows of the matrix it holds sum
  to 0, not to 1.
\<close>

theorem symmetric_zero_noise_counterexample:
  "symmetric_matrix 2 0 = Inr [[0, 0], [0, 0]] \<and> \<not> row_stochastic [[0, 0], [0, 0]]"
  by (simp add: symmetric_matrix_def np_ones_def py_truediv_def scalar_mul_def bindE_def
        row_stochastic_def numeral_eq_Suc)

section \<open>Properties of the sampler\<close>

subsection \<open>Sequencing\<close>

lemma bindT_Inl: "bindT (t, Inl e) f = (t, Inl e)"
  by (simp add: bindT_def)

lemma bindT_Inr: "bindT (t, Inr x) f = (t @ fst (f x), snd (f x))"
  by (simp add: bindT_def split: prod.splits)

lemma bindT_emit: "bindT (emit ev) f = (ev # fst (f ()), snd (f ()))"
  by (simp add: emit_def bindT_Inr)

lemma bindT_lift_Inl: "bindT (liftT (Inl e)) f = ([], Inl e)"
  by (simp add: liftT_def bindT_Inl)

lemma bindT_lift_Inr: "bindT (liftT (Inr x)) f = f x"
  by (simp add: liftT_def bindT_Inr)

lemma bindT_assert: "bindT (liftT (py_assert b)) f = (if b then f () else ([], Inl AssertionError))"
  by (simp add: py_assert_def bindT_lift_Inl bindT_lift_Inr)

lemma snd_bindT_Inr:
  "snd (bindT m f) = Inr z \<longleftrightarrow> (\<exists>x. snd m = Inr x \<and> snd (f x) = Inr z)"
  by (cases m) (auto simp: bindT_def split: sum.splits prod.splits)

lemma snd_bindT_Inl:
  "snd (bindT m f) = Inl e \<longleftrightarrow> snd m = Inl e \<or> (\<exists>x. snd m = Inr x \<and> snd (f x) = Inl e)"
  by (cases m) (auto simp: bindT_def split: sum.splits prod.splits)

subsection \<open>The checks at the head of the sampler\<close>

lemma np_max_Max:
  assumes "ys \<noteq> []"
  shows "np_max ys = Inr (Max (set ys))"
proof (cases ys)
  case Nil
  then show ?thesis using assms by simp
next
  case (Cons a list)
  have "Max (set (a # list)) = fold max list a" by (rule Max.set_eq_fold)
  then show ?thesis using Cons by (simp add: np_max_def del: set_simps)
qed

lemma row_sums_check:
  "list_all2 almost_equal (map sum_list M) (replicate (length M) 1)
     \<longleftrightarrow> list_all (\<lambda>row. almost_equal (sum_list row) 1) M"
  by (simp add: list_all2_conv_all_nth list_all_length)

lemma sampler_rejects:
  assumes "label_values y \<noteq> []" and "\<not> sampler_preconditions y M"
  shows "multiclass_noisify np ent y M rs = ([Sampler_entered], Inl AssertionError)"
proof (cases "shape0 M = shape1 M")
  case False
  then show ?thesis by (simp add: multiclass_noisify_def bindT_emit bindT_assert)
next
  case True
  then have sq: "shape1 M = length M" by (simp add: shape0_def)
  from assms(2) True have
    "\<not> (Max (set (label_values y)) < int (shape0 M)
        \<and> list_all (\<lambda>row. almost_equal (sum_list row) 1) M
        \<and> list_all (list_all (\<lambda>x. 0 \<le> x)) M)"
    by (simp add: sampler_preconditions_def)
  then show ?thesis
    using True np_max_Max [OF assms(1)]
    by (auto simp: multiclass_noisify_def bindT_emit bindT_assert bindT_lift_Inr sq row_sums_check)
qed


lemma sampler_accepts:
  assumes "label_values y \<noteq> []" and "sampler_preconditions y M"
  shows "multiclass_noisify np ent y M rs =
     (Sampler_entered #
        fst (bindT (liftT (RandomState np ent rs)) (\<lambda>flipper.
             bindT (emit Rng_created) (\<lambda>_.
             bindT (forT [0..<length (label_values y)] (flip_one np y M) (label_values y, flipper)) (\<lambda>s.
             returnT (with_values y (fst s)))))),
      snd (bindT (liftT (RandomState np ent rs)) (\<lambda>flipper.
             bindT (emit Rng_created) (\<lambda>_.
             bindT (forT [0..<length (label_values y)] (flip_one np y M) (label_values y, flipper)) (\<lambda>s.
             returnT (with_values y (fst s)))))))"
proof -
  from assms(2) have p: "shape0 M = shape1 M" "Max (set (label_values y)) < int (shape0 M)"
    "list_all (\<lambda>row. almost_equal (sum_list row) 1) M" "list_all (list_all (\<lambda>x. 0 \<le> x)) M"
    by (simp_all add: sampler_preconditions_def)
  have sq: "shape1 M = length M" using p(1) by (simp add: shape0_def)
  show ?thesis
    using p np_max_Max [OF assms(1)]
    by (simp add: multiclass_noisify_def bindT_emit bindT_assert bindT_lift_Inr sq row_sums_check Let_def)
qed

subsection \<open>The loop\<close>

lemma flip_one_no_assertion: "snd (flip_one np y M idx s) \<noteq> Inl AssertionError"
  by (auto simp: flip_one_def Let_def snd_bindT_Inl liftT_def emit_def returnT_def
        row_then_first_def np_multinomial_def setitem_label_def bindE_def np_index_def
      split: item.splits sum.splits list.splits option.splits pvals.splits if_splits)

lemma forT_no_assertion: "snd (forT xs (flip_one np y M) s) \<noteq> Inl AssertionError"
proof (induction xs arbitrary: s)
  case Nil
  then show ?case by (simp add: returnT_def)
next
  case (Cons i xs)
  show ?case
    using flip_one_no_assertion [of np y M i s] Cons.IH
    by (auto simp: snd_bindT_Inl)
qed

lemma sampler_no_late_assertion:
  assumes "label_values y \<noteq> []" and "sampler_preconditions y M"
  shows "snd (multiclass_noisify np ent y M rs) \<noteq> Inl AssertionError"
  unfolding sampler_accepts [OF assms]
  using forT_no_assertion [of "[0..<length (label_values y)]" np y M]
  by (auto simp: snd_bindT_Inl liftT_def emit_def returnT_def RandomState_def
      split: option.splits)

lemma entropy_seed_differs:
  "multiclass_noisify spec_rng 0 (Column [0, 1, 0]) [[1 / 2, 1 / 2], [1 / 2, 1 / 2]] None
     \<noteq> multiclass_noisify spec_rng 2 (Column [0, 1, 0]) [[1 / 2, 1 / 2], [1 / 2, 1 / 2]] None"
  by (simp add: run_defs)

text \<open>
  C5. The sampler builds its generator from the seed it is given: for an integer seed its
  result, events included, is the same whatever the entropy of the surrounding system
  is, so two runs on the same labels, matrix and seed return the same noisy labels. (With
  \<open>None\<close> as seed the result does depend on that entropy, as \<open>entropy_seed_differs\<close>
  shows.)
\<close>

theorem multiclass_noisify_deterministic:
  "multiclass_noisify np ent y matrix (Some seed) = multiclass_noisify np ent' y matrix (Some seed)"
  by (simp add: multiclass_noisify_def RandomState_def)

text \<open>
  C6. For a label array with at least one element (so that its maximum exists), the
  sampler fails with AssertionError exactly when one of the four preconditions is
  violated: the matrix is square, the largest label is below the number of rows, every
  row sums to 1 within the tolerance of \<^verbatim>\<open>assert_array_almost_equal\<close>, and no entry is
  negative. When it does, the only event is the entry into the sampler: no generator has
  been created, nothing has been drawn and no labels are returned.
\<close>

theorem multiclass_noisify_validation:
  assumes "label_values y \<noteq> []"
  shows "(snd (multiclass_noisify np ent y M rs) = Inl AssertionError
            \<longleftrightarrow> \<not> sampler_preconditions y M)
       \<and> (\<not> sampler_preconditions y M
            \<longrightarrow> multiclass_noisify np ent y M rs = ([Sampler_entered], Inl AssertionError))"
  using sampler_rejects [OF assms, of M np ent rs] sampler_no_late_assertion [OF assms, of M np ent rs]
  by auto

theorem multiclass_noisify_validation_witness:
  "label_values (Column [0, 1]) \<noteq> []
   \<and> \<not> sampler_preconditions (Column [0, 1]) [[1 / 2, 2 / 5], [1 / 2, 1 / 2]]
   \<and> multiclass_noisify spec_rng 0 (Column [0, 1]) [[1 / 2, 2 / 5], [1 / 2, 1 / 2]] (Some 0)
       = ([Sampler_entered], Inl AssertionError)
   \<and> sampler_preconditions (Column [0, 1]) [[1 / 2, 1 / 2], [1 / 2, 1 / 2]]
   \<and> snd (multiclass_noisify spec_rng 0 (Column [0, 1]) [[1 / 2, 1 / 2], [1 / 2, 1 / 2]] (Some 0))
       \<noteq> Inl AssertionError"
proof -
  have h: "label_values (Column [0, 1]) \<noteq> []" by simp
  have bad: "\<not> sampler_preconditions (Column [0, 1]) [[1 / 2, 2 / 5], [1 / 2, 1 / 2]]"
    by (simp add: sampler_preconditions_def almost_equal_def shape0_def shape1_def)
  have good: "sampler_preconditions (Column [0, 1]) [[1 / 2, 1 / 2], [1 / 2, 1 / 2]]"
    by (simp add: sampler_preconditions_def almost_equal_def shape0_def shape1_def)
  from multiclass_noisify_validation [OF h, of spec_rng 0 "[[1 / 2, 2 / 5], [1 / 2, 1 / 2]]" "Some 0"]
    multiclass_noisify_validation [OF h, of spec_rng 0 "[[1 / 2, 1 / 2], [1 / 2, 1 / 2]]" "Some 0"]
    h bad good
  show ?thesis by blast
qed

subsection \<open>Dispatch and the zero-noise path\<close>

lemma pairflip_matrix_no_noise:
  assumes "0 \<le> C" and "n \<le> 0"
  shows "pairflip_matrix C n = Inr (table (nat C) (\<lambda>(i, j). if i = j then 1 else 0))"
  using assms np_eye_table [of C] by (simp add: pairflip_matrix_def bindE_def)

lemma symmetric_matrix_no_noise:
  assumes "0 \<le> C" and "C \<noteq> 1" and "n \<le> 0"
  shows "\<exists>M. symmetric_matrix C n = Inr M"
  using assms by (simp add: symmetric_matrix_def np_ones_def py_truediv_def bindE_def)

text \<open>
  C4. With a noise level of 0 the dispatcher returns, for either topology and every label
  array, the input labels and \<open>None\<close> as the realized rate; the only event is the
  start of the matrix, so the sampler is not entered. This holds for every class
  count \<open>C \<ge> 0\<close>, except that the symmetric topology at \<open>C = 1\<close> divides by zero before
  it reaches the guard; every class count the spec admits (\<open>C \<ge> 2\<close>) is covered.
\<close>

theorem noisify_zero_noise:
  assumes "0 \<le> C"
    and "noise_type = Some ''pairflip'' \<or> (noise_type = Some ''symmetric'' \<and> C \<noteq> 1)"
  shows "noisify np ent C y noise_type 0 random_state = ([Build_matrix], Inr (y, None))
       \<and> Sampler_entered \<notin> set (fst (noisify np ent C y noise_type 0 random_state))"
proof -
  have "noisify np ent C y noise_type 0 random_state = ([Build_matrix], Inr (y, None))"
    using assms(2)
  proof
    assume t: "noise_type = Some ''pairflip''"
    show ?thesis
      using pairflip_matrix_no_noise [OF assms(1), of 0]
      by (simp add: t noisify_def noisify_pairflip_def bindT_emit bindT_lift_Inr returnT_def)
  next
    assume t: "noise_type = Some ''symmetric'' \<and> C \<noteq> 1"
    then obtain M where "symmetric_matrix C 0 = Inr M"
      using symmetric_matrix_no_noise [OF assms(1), of 0] by auto
    then show ?thesis
      using t
      by (simp add: noisify_def noisify_multiclass_symmetric_def bindT_emit bindT_lift_Inr returnT_def)
  qed
  then show ?thesis by simp
qed

theorem noisify_zero_noise_witness:
  "(0::int) \<le> 3
   \<and> ((Some ''symmetric'' :: string option) = Some ''pairflip''
        \<or> ((Some ''symmetric'' :: string option) = Some ''symmetric'' \<and> (3::int) \<noteq> 1))
   \<and> noisify spec_rng 0 3 (Column [2, 0, 1]) (Some ''symmetric'') 0 (Some 0)
       = ([Build_matrix], Inr (Column [2, 0, 1], None))
   \<and> noisify spec_rng 0 3 (Column [2, 0, 1]) (Some ''pairflip'') 0 (Some 0)
       = ([Build_matrix], Inr (Column [2, 0, 1], None))"
proof -
  have h1: "(0::int) \<le> 3" by simp
  have h2: "(Some ''symmetric'' :: string option) = Some ''pairflip''
        \<or> ((Some ''symmetric'' :: string option) = Some ''symmetric'' \<and> (3::int) \<noteq> 1)" by simp
  have h3: "(Some ''pairflip'' :: string option) = Some ''pairflip''
        \<or> ((Some ''pairflip'' :: string option) = Some ''symmetric'' \<and> (3::int) \<noteq> 1)" by simp
  from noisify_zero_noise [OF h1 h2, of spec_rng 0 "Column [2, 0, 1]" "Some 0"]
    noisify_zero_noise [OF h1 h3, of spec_rng 0 "Column [2, 0, 1]" "Some 0"] h1 h2
  show ?thesis by blast
qed

text \<open>
  C7. For every noise type other than the strings \<^verbatim>\<open>pairflip\<close> and \<^verbatim>\<open>symmetric\<close> the
  dispatcher raises ValueError (\<^verbatim>\<open>Unsupported noise type\<close>) with no event at all: no
  matrix is built, the sampler is not entered, and the labels are not read.
\<close>

theorem noisify_unsupported_type:
  assumes "noise_type \<noteq> Some ''pairflip''" and "noise_type \<noteq> Some ''symmetric''"
  shows "noisify np ent C y noise_type n random_state = ([], Inl ValueError)"
  using assms by (simp add: noisify_def raiseT_def)

theorem noisify_unsupported_type_witness:
  "(Some ''gaussian'' :: string option) \<noteq> Some ''pairflip''
   \<and> (Some ''gaussian'' :: string option) \<noteq> Some ''symmetric''
   \<and> noisify spec_rng 0 10 (Column [3, 1, 4]) (Some ''gaussian'') (1 / 2) (Some 0)
       = ([], Inl ValueError)
   \<and> noisify spec_rng 0 10 (Column [3, 1, 4]) None (1 / 2) (Some 0) = ([], Inl ValueError)"
proof -
  have h1: "(Some ''gaussian'' :: string option) \<noteq> Some ''pairflip''" by simp
  have h2: "(Some ''gaussian'' :: string option) \<noteq> Some ''symmetric''" by simp
  have h3: "(None :: string option) \<noteq> Some ''pairflip''" by simp
  have h4: "(None :: string option) \<noteq> Some ''symmetric''" by simp
  from noisify_unsupported_type [OF h1 h2, of spec_rng 0 10 "Column [3, 1, 4]" "1 / 2" "Some 0"]
    noisify_unsupported_type [OF h3 h4, of spec_rng 0 10 "Column [3, 1, 4]" "1 / 2" "Some 0"] h1 h2
  show ?thesis by blast
qed

subsection \<open>Flat label arrays\<close>

lemma preconditions_rows_nonempty:
  assumes "sampler_preconditions y M" and "r < length M"
  shows "M ! r \<noteq> []"
proof
  assume e: "M ! r = []"
  from assms have "almost_equal (sum_list (M ! r)) 1"
    by (simp add: sampler_preconditions_def list_all_length)
  with e show False by (simp add: almost_equal_def)
qed

lemma preconditions_label_bound:
  assumes "sampler_preconditions y M" and "idx < length (label_values y)"
  shows "label_values y ! idx < int (length M)"
proof -
  have "label_values y ! idx \<le> Max (set (label_values y))"
    using assms(2) by (intro Max_ge) simp_all
  with assms(1) show ?thesis by (simp add: sampler_preconditions_def shape0_def)
qed

lemma flat_selects_scalar:
  assumes "sampler_preconditions (Flat ys) M" and "\<forall>v\<in>set ys. 0 \<le> v" and "idx < length ys"
  shows "\<exists>x. row_then_first M (getitem_label (Flat ys) idx) = Inr (Pscalar x)"
proof -
  have lo: "0 \<le> ys ! idx" using assms(2,3) by simp
  have hi: "ys ! idx < int (length M)"
    using preconditions_label_bound [OF assms(1), of idx] assms(3) by simp
  then have "nat (ys ! idx) < length M" using lo by simp
  then have "M ! nat (ys ! idx) \<noteq> []" by (rule preconditions_rows_nonempty [OF assms(1)])
  then show ?thesis
    using lo hi
    by (cases "M ! nat (ys ! idx)")
       (simp_all add: row_then_first_def np_index_def shape0_def bindE_def)
qed

lemma column_selects_row:
  assumes "sampler_preconditions (Column ys) M" and "\<forall>v\<in>set ys. 0 \<le> v" and "idx < length ys"
  shows "row_then_first M (getitem_label (Column ys) idx) = Inr (Pvector (M ! nat (ys ! idx)))"
proof -
  have lo: "0 \<le> ys ! idx" using assms(2,3) by simp
  have hi: "ys ! idx < int (length M)"
    using preconditions_label_bound [OF assms(1), of idx] assms(3) by simp
  show ?thesis
    using lo hi by (simp add: row_then_first_def np_index_def shape0_def bindE_def)
qed

lemma flat_first_round:
  assumes "sampler_preconditions (Flat ys) M" and "\<forall>v\<in>set ys. 0 \<le> v" and "ys \<noteq> []"
  shows "flip_one np (Flat ys) M 0 s = ([Rng_draw], Inl TypeError)"
proof -
  from assms(3) have "0 < length ys" by simp
  from flat_selects_scalar [OF assms(1,2) this] obtain x where
    "row_then_first M (getitem_label (Flat ys) 0) = Inr (Pscalar x)" by blast
  then show ?thesis
    by (simp add: flip_one_def Let_def bindT_lift_Inr bindT_emit np_multinomial_def bindT_lift_Inl)
qed

text \<open>
  C10. For a flat, non-empty array of non-negative labels that meets the four
  preconditions, \<^verbatim>\<open>matrix[i, :][0]\<close> is a scalar at every position, on which the draw
  raises TypeError; so the sampler returns no labels, and whenever the generator could be
  created it stops with TypeError at the first draw.
\<close>

theorem flat_labels_draw_fails:
  assumes "ys \<noteq> []" and "sampler_preconditions (Flat ys) M" and "\<forall>v\<in>set ys. 0 \<le> v"
  shows "(\<forall>idx<length ys. \<exists>x. row_then_first M (getitem_label (Flat ys) idx) = Inr (Pscalar x)
                               \<and> np_multinomial np g (Pscalar x) = Inl TypeError)
       \<and> (\<exists>e. snd (multiclass_noisify np ent (Flat ys) M random_state) = Inl e)
       \<and> (RandomState np ent random_state = Inr g \<longrightarrow>
            multiclass_noisify np ent (Flat ys) M random_state
              = ([Sampler_entered, Rng_created, Rng_draw], Inl TypeError))"
proof -
  have ne: "label_values (Flat ys) \<noteq> []" using assms(1) by simp
  have up: "[0..<length ys] = 0 # [1..<length ys]" using assms(1) by (simp add: upt_conv_Cons)
  have a: "\<forall>idx<length ys. \<exists>x. row_then_first M (getitem_label (Flat ys) idx) = Inr (Pscalar x)
                               \<and> np_multinomial np g (Pscalar x) = Inl TypeError"
    using flat_selects_scalar [OF assms(2,3)] by (simp add: np_multinomial_def)
  have loop: "\<And>s. forT [0..<length ys] (flip_one np (Flat ys) M) s = ([Rng_draw], Inl TypeError)"
    unfolding up by (simp add: flat_first_round [OF assms(2,3,1)] bindT_Inl)
  have run: "multiclass_noisify np ent (Flat ys) M random_state =
      (case RandomState np ent random_state of
         Inl e \<Rightarrow> ([Sampler_entered], Inl e)
       | Inr g \<Rightarrow> ([Sampler_entered, Rng_created, Rng_draw], Inl TypeError))"
    unfolding sampler_accepts [OF ne assms(2)]
    by (simp add: loop bindT_emit bindT_Inl bindT_lift_Inl bindT_lift_Inr split: sum.splits)
  show ?thesis
    using a run by (auto split: sum.splits)
qed

theorem flat_labels_draw_fails_witness:
  "[0, 1 :: int] \<noteq> []
   \<and> sampler_preconditions (Flat [0, 1]) [[1 / 2, 1 / 2], [1 / 2, 1 / 2]]
   \<and> list_all (\<lambda>v. 0 \<le> v) [0, 1 :: int]
   \<and> RandomState spec_rng 0 (Some 7) = Inr (7::nat)
   \<and> multiclass_noisify spec_rng 0 (Flat [0, 1]) [[1 / 2, 1 / 2], [1 / 2, 1 / 2]] (Some 7)
       = ([Sampler_entered, Rng_created, Rng_draw], Inl TypeError)"
proof -
  have h1: "[0, 1 :: int] \<noteq> []" by simp
  have h2: "sampler_preconditions (Flat [0, 1]) [[1 / 2, 1 / 2], [1 / 2, 1 / 2]]"
    by (simp add: sampler_preconditions_def almost_equal_def shape0_def shape1_def)
  have h3: "\<forall>v\<in>set [0, 1 :: int]. 0 \<le> v" by simp
  have h4: "RandomState spec_rng 0 (Some 7) = Inr (7::nat)"
    by (simp add: RandomState_def spec_rng_def)
  have h5: "list_all (\<lambda>v. 0 \<le> v) [0, 1 :: int]" by simp
  from flat_labels_draw_fails [OF h1 h2 h3, of spec_rng 7 0 "Some 7"] h1 h2 h4 h5
  show ?thesis by blast
qed

subsection \<open>What a successful run of the sampler returns\<close>

lemma snd_liftT: "snd (liftT r) = r"
  by (simp add: liftT_def)

lemma snd_emit: "snd (emit ev) = Inr ()"
  by (simp add: emit_def)

lemma snd_returnT: "snd (returnT x) = Inr x"
  by (simp add: returnT_def)

lemma setitem_label_length: "setitem_label new_y idx w = Inr zs \<Longrightarrow> length zs = length new_y"
  by (auto simp: setitem_label_def split: list.splits)

lemma flip_one_length:
  assumes "snd (flip_one np y M idx s) = Inr s'"
  shows "length (fst s') = length (fst s)"
  using assms
  by (auto simp: flip_one_def Let_def snd_bindT_Inr snd_liftT snd_emit snd_returnT
      dest: setitem_label_length)

lemma forT_length:
  assumes "snd (forT xs (flip_one np y M) s) = Inr s'"
  shows "length (fst s') = length (fst s)"
  using assms
proof (induction xs arbitrary: s)
  case Nil
  then show ?case by (simp add: returnT_def)
next
  case (Cons i xs)
  from Cons.prems obtain s1 where
    s1: "snd (flip_one np y M i s) = Inr s1" "snd (forT xs (flip_one np y M) s1) = Inr s'"
    by (auto simp: snd_bindT_Inr)
  from Cons.IH [OF s1(2)] flip_one_length [OF s1(1)] show ?case by simp
qed

lemma multiclass_noisify_nonempty:
  assumes "snd (multiclass_noisify np ent y M rs) = Inr y'"
  shows "label_values y \<noteq> [] \<and> length (label_values y') = length (label_values y)"
proof -
  from assms obtain mx g s where
    mx: "np_max (label_values y) = Inr mx"
    and s: "snd (forT [0..<length (label_values y)] (flip_one np y M) (label_values y, g)) = Inr s"
    and y': "y' = with_values y (fst s)"
    by (auto simp: multiclass_noisify_def Let_def snd_bindT_Inr snd_liftT snd_emit snd_returnT)
  have "label_values y \<noteq> []" using mx by (auto simp: np_max_def)
  moreover have "label_values (with_values y (fst s)) = fst s" by (cases y) simp_all
  ultimately show ?thesis using forT_length [OF s] y' by simp
qed

lemma mean_not_equal_positive:
  assumes "0 < mean_not_equal a b"
  shows "\<exists>idx. idx < length (label_values a) \<and> idx < length (label_values b)
           \<and> label_values a ! idx \<noteq> label_values b ! idx"
proof -
  let ?d = "filter (\<lambda>(x, y). x \<noteq> y) (zip (label_values a) (label_values b))"
  have "?d \<noteq> []"
  proof
    assume "?d = []"
    then have "mean_not_equal a b = 0" by (simp add: mean_not_equal_def)
    with assms show False by simp
  qed
  then obtain p where "p \<in> set ?d" by (cases ?d) auto
  then obtain x y where "(x, y) \<in> set (zip (label_values a) (label_values b))" "x \<noteq> y"
    by auto
  then show ?thesis by (auto simp: in_set_zip)
qed

subsection \<open>The assertion on the realized noise\<close>

lemma noisify_pairflip_run:
  assumes "0 < n" and "pairflip_matrix C n = Inr M"
  shows "snd (noisify_pairflip np ent y n rs C) =
     (case snd (multiclass_noisify np ent y M rs) of
        Inl e \<Rightarrow> Inl e
      | Inr y' \<Rightarrow> if 0 < mean_not_equal y' y then Inr (y', Some (mean_not_equal y' y))
                   else Inl AssertionError)"
  using assms
  by (cases "multiclass_noisify np ent y M rs")
     (auto simp: noisify_pairflip_def bindT_emit bindT_lift_Inr bindT_assert bindT_Inl bindT_Inr
        Let_def returnT_def split: sum.splits)

lemma noisify_symmetric_run:
  assumes "0 < n" and "symmetric_matrix C n = Inr M"
  shows "snd (noisify_multiclass_symmetric np ent y n rs C) =
     (case snd (multiclass_noisify np ent y M rs) of
        Inl e \<Rightarrow> Inl e
      | Inr y' \<Rightarrow> if 0 < mean_not_equal y' y then Inr (y', Some (mean_not_equal y' y))
                   else Inl AssertionError)"
  using assms
  by (cases "multiclass_noisify np ent y M rs")
     (auto simp: noisify_multiclass_symmetric_def bindT_emit bindT_lift_Inr bindT_assert bindT_Inl
        bindT_Inr Let_def returnT_def split: sum.splits)

lemma noisify_pairflip_builder_fails:
  assumes "pairflip_matrix C n = Inl e"
  shows "noisify_pairflip np ent y n rs C = ([Build_matrix], Inl e)"
  using assms by (simp add: noisify_pairflip_def bindT_emit bindT_lift_Inl)

lemma noisify_symmetric_builder_fails:
  assumes "symmetric_matrix C n = Inl e"
  shows "noisify_multiclass_symmetric np ent y n rs C = ([Build_matrix], Inl e)"
  using assms by (simp add: noisify_multiclass_symmetric_def bindT_emit bindT_lift_Inl)

lemma noisify_returns:
  assumes "0 < n" and "snd (noisify np ent C y noise_type n rs) = Inr (y', r)"
  shows "\<exists>M. (noise_type = Some ''pairflip'' \<and> pairflip_matrix C n = Inr M
               \<or> noise_type = Some ''symmetric'' \<and> symmetric_matrix C n = Inr M)
            \<and> snd (multiclass_noisify np ent y M rs) = Inr y'
            \<and> 0 < mean_not_equal y' y \<and> r = Some (mean_not_equal y' y)"
proof (cases "noise_type = Some ''pairflip''")
  case True
  show ?thesis
  proof (cases "pairflip_matrix C n")
    case (Inl e)
    with assms True show ?thesis
      by (simp add: noisify_def noisify_pairflip_builder_fails)
  next
    case (Inr M)
    with assms True show ?thesis
      by (auto simp: noisify_def noisify_pairflip_run [OF assms(1) Inr] split: sum.splits if_splits)
  qed
next
  case False
  show ?thesis
  proof (cases "noise_type = Some ''symmetric''")
    case nt: True
    show ?thesis
    proof (cases "symmetric_matrix C n")
      case (Inl e)
      with assms nt show ?thesis
        by (simp add: noisify_def noisify_symmetric_builder_fails)
    next
      case (Inr M)
      with assms nt show ?thesis
        by (auto simp: noisify_def noisify_symmetric_run [OF assms(1) Inr] split: sum.splits if_splits)
    qed
  next
    case nt: False
    with assms False show ?thesis by (simp add: noisify_def raiseT_def)
  qed
qed

lemma noisify_pairflip_trace:
  assumes "0 < n" and "pairflip_matrix C n = Inr M"
  shows "noisify_pairflip np ent y n rs C =
     (case multiclass_noisify np ent y M rs of
        (t, Inl e) \<Rightarrow> (Build_matrix # t, Inl e)
      | (t, Inr y') \<Rightarrow>
          if 0 < mean_not_equal y' y
          then (Build_matrix # t @ [Printed (mean_not_equal y' y)],
                Inr (y', Some (mean_not_equal y' y)))
          else (Build_matrix # t, Inl AssertionError))"
  using assms
  by (cases "multiclass_noisify np ent y M rs")
     (auto simp: noisify_pairflip_def bindT_emit bindT_lift_Inr bindT_assert bindT_Inl bindT_Inr
        Let_def returnT_def emit_def split: sum.splits)

lemma noisify_symmetric_trace:
  assumes "0 < n" and "symmetric_matrix C n = Inr M"
  shows "noisify_multiclass_symmetric np ent y n rs C =
     (case multiclass_noisify np ent y M rs of
        (t, Inl e) \<Rightarrow> (Build_matrix # t, Inl e)
      | (t, Inr y') \<Rightarrow>
          if 0 < mean_not_equal y' y
          then (Build_matrix # t @ [Printed (mean_not_equal y' y)],
                Inr (y', Some (mean_not_equal y' y)))
          else (Build_matrix # t, Inl AssertionError))"
  using assms
  by (cases "multiclass_noisify np ent y M rs")
     (auto simp: noisify_multiclass_symmetric_def bindT_emit bindT_lift_Inr bindT_assert bindT_Inl
        bindT_Inr Let_def returnT_def emit_def split: sum.splits)

lemma builder_succeeds:
  assumes "2 \<le> C" and "0 < n"
  shows "\<exists>M. pairflip_matrix C n = Inr M" and "\<exists>M. symmetric_matrix C n = Inr M"
proof -
  have N: "2 \<le> nat C" "int (nat C) = C" using assms(1) by simp_all
  show "\<exists>M. pairflip_matrix C n = Inr M"
    using pairflip_matrix_nat [OF N(1) assms(2)] unfolding N(2) by blast
  show "\<exists>M. symmetric_matrix C n = Inr M"
    using symmetric_matrix_nat [OF N(1) assms(2)] unfolding N(2) by blast
qed

lemma example_symmetric_matrix: "symmetric_matrix 2 1 = Inr [[0, 1], [1, 0]]"
  by (simp add: matrix_defs bindE_def np_index_def shape0_def shape1_def numeral_eq_Suc)

lemma example_pairflip_matrix: "pairflip_matrix 2 (1 / 2) = Inr [[1 / 2, 1 / 2], [1 / 2, 1 / 2]]"
  by (simp add: matrix_defs bindE_def np_index_def shape0_def shape1_def numeral_eq_Suc)

lemma example_all_flip:
  "multiclass_noisify spec_rng 0 (Column [0, 0, 0, 0, 0]) [[0, 1], [1, 0]] (Some 0)
     = ([Sampler_entered, Rng_created, Rng_draw, Rng_draw, Rng_draw, Rng_draw, Rng_draw],
        Inr (Column [1, 1, 1, 1, 1]))"
  by (simp add: run_defs)

lemma example_no_flip:
  "multiclass_noisify spec_rng 0 (Column [0]) [[1 / 2, 1 / 2], [1 / 2, 1 / 2]] (Some 0)
     = ([Sampler_entered, Rng_created, Rng_draw], Inr (Column [0]))"
  by (simp add: run_defs)

text \<open>
  C9, as the code has it. With a noise level \<open>n > 0\<close>, a class count \<open>C \<ge> 2\<close> and either
  topology, the matrix is built and the sampler is run on it; what the call does next is
  decided by the realized rate, the mean of the positions where the sampler's labels
  differ from the input. If the sampler fails, so does the call. If the rate is strictly
  positive, the rate is printed and the call returns the sampler's labels with that rate.
  If it is not, no position having changed, the call ends with AssertionError and returns
  nothing. So every returned rate is strictly positive, with a label array that is not
  empty and at least one changed position; but a positive noise level does not by itself
  make the rate positive (see the closed example after the theorem).
\<close>

theorem realized_noise_assertion:
  assumes "0 < n" and "2 \<le> C"
    and "noise_type = Some ''pairflip'' \<or> noise_type = Some ''symmetric''"
  shows "\<exists>M. (noise_type = Some ''pairflip'' \<and> pairflip_matrix C n = Inr M
               \<or> noise_type = Some ''symmetric'' \<and> symmetric_matrix C n = Inr M)
         \<and> noisify np ent C y noise_type n rs =
             (case multiclass_noisify np ent y M rs of
                (t, Inl e) \<Rightarrow> (Build_matrix # t, Inl e)
              | (t, Inr y') \<Rightarrow>
                  if 0 < mean_not_equal y' y
                  then (Build_matrix # t @ [Printed (mean_not_equal y' y)],
                        Inr (y', Some (mean_not_equal y' y)))
                  else (Build_matrix # t, Inl AssertionError))
         \<and> (\<forall>y' r. snd (noisify np ent C y noise_type n rs) = Inr (y', r) \<longrightarrow>
               r = Some (mean_not_equal y' y) \<and> 0 < mean_not_equal y' y
               \<and> label_values y \<noteq> []
               \<and> (\<exists>idx<length (label_values y).
                     label_values y' ! idx \<noteq> label_values y ! idx))"
proof -
  have ret: "\<forall>y' r. snd (noisify np ent C y noise_type n rs) = Inr (y', r) \<longrightarrow>
               r = Some (mean_not_equal y' y) \<and> 0 < mean_not_equal y' y
               \<and> label_values y \<noteq> []
               \<and> (\<exists>idx<length (label_values y).
                     label_values y' ! idx \<noteq> label_values y ! idx)"
  proof (intro allI impI)
    fix y' r
    assume a: "snd (noisify np ent C y noise_type n rs) = Inr (y', r)"
    from noisify_returns [OF assms(1) a] obtain M' where
      run: "snd (multiclass_noisify np ent y M' rs) = Inr y'"
      and pos: "0 < mean_not_equal y' y" and r: "r = Some (mean_not_equal y' y)"
      by blast
    from multiclass_noisify_nonempty [OF run] have
      ne: "label_values y \<noteq> []" and len: "length (label_values y') = length (label_values y)"
      by simp_all
    from mean_not_equal_positive [OF pos] len have
      "\<exists>idx<length (label_values y). label_values y' ! idx \<noteq> label_values y ! idx" by auto
    then show "r = Some (mean_not_equal y' y) \<and> 0 < mean_not_equal y' y
               \<and> label_values y \<noteq> []
               \<and> (\<exists>idx<length (label_values y).
                     label_values y' ! idx \<noteq> label_values y ! idx)"
      using r pos ne by simp
  qed
  from assms(3) show ?thesis
  proof
    assume t: "noise_type = Some ''pairflip''"
    from builder_succeeds(1) [OF assms(2,1)] obtain M where M: "pairflip_matrix C n = Inr M" ..
    show ?thesis
      using ret t M noisify_pairflip_trace [OF assms(1) M, of np ent y rs]
      by (intro exI [of _ M]) (simp add: noisify_def)
  next
    assume t: "noise_type = Some ''symmetric''"
    from builder_succeeds(2) [OF assms(2,1)] obtain M where M: "symmetric_matrix C n = Inr M" ..
    show ?thesis
      using ret t M noisify_symmetric_trace [OF assms(1) M, of np ent y rs]
      by (intro exI [of _ M]) (simp add: noisify_def)
  qed
qed

theorem realized_noise_assertion_witness:
  "(0::real) < 1 \<and> (2::int) \<le> 2
   \<and> ((Some ''symmetric'' :: string option) = Some ''pairflip''
        \<or> (Some ''symmetric'' :: string option) = Some ''symmetric'')
   \<and> noisify spec_rng 0 2 (Column [0, 0, 0, 0, 0]) (Some ''symmetric'') 1 (Some 0)
       = ([Build_matrix, Sampler_entered, Rng_created, Rng_draw, Rng_draw, Rng_draw, Rng_draw,
           Rng_draw, Printed 1],
          Inr (Column [1, 1, 1, 1, 1], Some 1))
   \<and> (0::real) < 1 / 2
   \<and> noisify spec_rng 0 2 (Column [0]) (Some ''pairflip'') (1 / 2) (Some 0)
       = ([Build_matrix, Sampler_entered, Rng_created, Rng_draw], Inl AssertionError)"
proof -
  have h1: "(0::real) < 1" and h2: "(2::int) \<le> 2" and h3: "(0::real) < 1 / 2" by simp_all
  have s: "(Some ''symmetric'' :: string option) = Some ''pairflip''
        \<or> (Some ''symmetric'' :: string option) = Some ''symmetric''" by simp
  have p: "(Some ''pairflip'' :: string option) = Some ''pairflip''
        \<or> (Some ''pairflip'' :: string option) = Some ''symmetric''" by simp
  have m1: "mean_not_equal (Column [1, 1, 1, 1, 1]) (Column [0, 0, 0, 0, 0]) = 1"
    by (simp add: mean_not_equal_def)
  have m0: "mean_not_equal (Column [0]) (Column [0]) = 0"
    by (simp add: mean_not_equal_def)
  from realized_noise_assertion [OF h1 h2 s, of spec_rng 0 "Column [0, 0, 0, 0, 0]" "Some 0"]
  have a: "noisify spec_rng 0 2 (Column [0, 0, 0, 0, 0]) (Some ''symmetric'') 1 (Some 0)
       = ([Build_matrix, Sampler_entered, Rng_created, Rng_draw, Rng_draw, Rng_draw, Rng_draw,
           Rng_draw, Printed 1],
          Inr (Column [1, 1, 1, 1, 1], Some 1))"
    by (auto simp: example_symmetric_matrix example_all_flip m1)
  from realized_noise_assertion [OF h3 h2 p, of spec_rng 0 "Column [0]" "Some 0"]
  have b: "noisify spec_rng 0 2 (Column [0]) (Some ''pairflip'') (1 / 2) (Some 0)
       = ([Build_matrix, Sampler_entered, Rng_created, Rng_draw], Inl AssertionError)"
    by (auto simp: example_pairflip_matrix example_no_flip m0)
  from h1 h2 h3 s a b show ?thesis by blast
qed

text \<open>
  One label, two classes, pairflip at noise level \<open>1/2\<close>: the generator \<open>spec_rng\<close> seeded
  with 0 draws class 0 for the label 0, so the realized rate computed after sampling is
  0, not strictly positive, and the call ends with AssertionError.
\<close>

theorem realized_noise_zero_counterexample:
  "pairflip_matrix 2 (1 / 2) = Inr [[1 / 2, 1 / 2], [1 / 2, 1 / 2]]
   \<and> multiclass_noisify spec_rng 0 (Column [0]) [[1 / 2, 1 / 2], [1 / 2, 1 / 2]] (Some 0)
       = ([Sampler_entered, Rng_created, Rng_draw], Inr (Column [0]))
   \<and> mean_not_equal (Column [0]) (Column [0]) = 0
   \<and> noisify spec_rng 0 2 (Column [0]) (Some ''pairflip'') (1 / 2) (Some 0)
       = ([Build_matrix, Sampler_entered, Rng_created, Rng_draw], Inl AssertionError)"
proof -
  have h: "(0::real) < 1 / 2" by simp
  have m0: "mean_not_equal (Column [0]) (Column [0]) = 0"
    by (simp add: mean_not_equal_def)
  have "noisify spec_rng 0 2 (Column [0]) (Some ''pairflip'') (1 / 2) (Some 0)
       = ([Build_matrix, Sampler_entered, Rng_created, Rng_draw], Inl AssertionError)"
    using noisify_pairflip_trace [OF h example_pairflip_matrix, of spec_rng 0 "Column [0]" "Some 0"]
    by (simp add: noisify_def example_no_flip m0)
  then show ?thesis using example_pairflip_matrix example_no_flip m0 by simp
qed

subsection \<open>Configurations outside the documented range\<close>









end
